theory Spec2Isabelle
  imports Complex_Main "HOL-Library.AList"
begin

section \<open>Data model of the in-memory DataStore\<close>

text \<open>
  The store is the class \<^verbatim>\<open>DataStore\<close> of the backend: three arrays
  (users, stockItems, prices) and the methods that read and write them.
  JavaScript numbers are modelled by exact reals (no rounding, no NaN, no infinities);
  a calendar year is an integer.  An optional or possibly missing property is an
  \<open>option\<close>, \<open>None\<close> standing for \<^verbatim>\<open>undefined\<close> (or an absent key).
  Fresh ids (\<^verbatim>\<open>uuidv4()\<close>) and the clock (\<^verbatim>\<open>new Date()\<close>) are parameters of
  the operations that use them.
\<close>

datatype category = berry | mushroom

text \<open>A \<^verbatim>\<open>Date\<close>: the instant and the calendar year \<^verbatim>\<open>getFullYear()\<close> reads from it.\<close>

record jsdate =
  epochMillis :: int
  getFullYear :: int

record user =
  user_id :: string
  aliasName :: string
  createdAt :: jsdate
  revenue :: real
  profit :: real

record stockItem =
  item_id :: string
  userId :: string
  item_type :: category
  species :: string
  quantity :: real
  unitPrice :: real
  buyPrice :: real
  sellPrice :: real
  totalRevenue :: real
  totalCost :: real
  totalProfit :: real
  totalPrice :: real
  location :: "string option"
  collectedAt :: jsdate
  item_notes :: "string option"

record price =
  price_id :: string
  price_type :: category
  price_species :: string
  year :: int
  price_buyPrice :: real
  price_sellPrice :: real
  updatedAt :: jsdate

record dataStore =
  users :: "user list"
  stockItems :: "stockItem list"
  prices :: "price list"

text \<open>What one year of a yearly summary holds.\<close>

record yearly =
  yr_revenue :: real
  yr_cost :: real
  yr_profit :: real
  itemCount :: nat

subsection \<open>JavaScript's \<^verbatim>\<open>||\<close> on numbers\<close>

text \<open>
  \<^verbatim>\<open>a || b\<close> is \<open>b\<close> when \<open>a\<close> is falsy.  A number is falsy when it is zero;
  \<^verbatim>\<open>undefined\<close> is falsy.
\<close>

definition jsor :: "real \<Rightarrow> real \<Rightarrow> real" where
  "jsor a b = (if a \<noteq> 0 then a else b)"

definition or_else :: "real option \<Rightarrow> real \<Rightarrow> real" where
  "or_else a b = (case a of None \<Rightarrow> b | Some x \<Rightarrow> if x \<noteq> 0 then x else b)"

definition falsy :: "real option \<Rightarrow> bool" where
  "falsy a = (case a of None \<Rightarrow> True | Some x \<Rightarrow> x = 0)"

text \<open>\<^verbatim>\<open>findIndex\<close>: the first index whose element satisfies the test, if any.\<close>

fun findIndex :: "('a \<Rightarrow> bool) \<Rightarrow> 'a list \<Rightarrow> nat option" where
  "findIndex P [] = None"
| "findIndex P (x # xs) =
     (if P x then Some 0 else map_option Suc (findIndex P xs))"

text \<open>\<^verbatim>\<open>splice(index, 1)\<close>: the array without the element at \<open>index\<close>.\<close>

definition splice1 :: "nat \<Rightarrow> 'a list \<Rightarrow> 'a list" where
  "splice1 i xs = take i xs @ drop (Suc i) xs"

section \<open>Transaction ledger\<close>

text \<open>
  The argument of \<^verbatim>\<open>createStockItem\<close>: a stock item without id, timestamp and
  derived totals.  The three prices are read through \<^verbatim>\<open>||\<close>, so they may be missing.
\<close>

record stockItemData =
  d_userId :: string
  d_type :: category
  d_species :: string
  d_quantity :: real
  d_unitPrice :: "real option"
  d_buyPrice :: "real option"
  d_sellPrice :: "real option"
  d_location :: "string option"
  d_notes :: "string option"

text \<open>
  \<^verbatim>\<open>createStockItem(stockItemData)\<close>, with the fresh id and the clock as
  \<open>newId\<close> and \<open>now\<close>.  The warning written to the console is not part of the result.
\<close>

definition createStockItem ::
  "dataStore \<Rightarrow> string \<Rightarrow> jsdate \<Rightarrow> stockItemData \<Rightarrow> stockItem \<times> dataStore" where
  "createStockItem s newId now d =
     (let buyPrice' = or_else (d_buyPrice d) 0;
          sellPrice' = or_else (d_sellPrice d) (or_else (d_unitPrice d) 0);
          unitPrice' = or_else (d_unitPrice d) sellPrice';
          totalRevenue' = (d_quantity d * sellPrice') / 1000;
          totalCost' = (d_quantity d * buyPrice') / 1000;
          totalProfit' = totalRevenue' - totalCost';
          totalPrice' = totalRevenue';
          item = \<lparr> item_id = newId, userId = d_userId d, item_type = d_type d,
                   species = d_species d, quantity = d_quantity d,
                   unitPrice = unitPrice', buyPrice = buyPrice', sellPrice = sellPrice',
                   totalRevenue = totalRevenue', totalCost = totalCost',
                   totalProfit = totalProfit', totalPrice = totalPrice',
                   location = d_location d, collectedAt = now, item_notes = d_notes d \<rparr>
      in (item, s\<lparr>stockItems := stockItems s @ [item]\<rparr>))"

text \<open>
  The partial update of \<^verbatim>\<open>updateStockItem\<close>: each key is present (\<open>Some\<close>) or
  absent (\<open>None\<close>); \<^verbatim>\<open>'quantity' in updates\<close> is \<open>present (upd_quantity u)\<close>.
\<close>

definition present :: "'a option \<Rightarrow> bool" where
  "present a = (case a of None \<Rightarrow> False | Some _ \<Rightarrow> True)"

record stockItemUpdates =
  upd_type :: "category option"
  upd_species :: "string option"
  upd_quantity :: "real option"
  upd_unitPrice :: "real option"
  upd_buyPrice :: "real option"
  upd_sellPrice :: "real option"
  upd_location :: "string option"
  upd_notes :: "string option"

text \<open>The spread \<^verbatim>\<open>{ ...item, ...updates }\<close>.\<close>

definition spread :: "'a \<Rightarrow> 'a option \<Rightarrow> 'a" where
  "spread old new = (case new of None \<Rightarrow> old | Some v \<Rightarrow> v)"

definition spread_opt :: "'a option \<Rightarrow> 'a option \<Rightarrow> 'a option" where
  "spread_opt old new = (case new of None \<Rightarrow> old | Some v \<Rightarrow> Some v)"

definition mergeItem :: "stockItem \<Rightarrow> stockItemUpdates \<Rightarrow> stockItem" where
  "mergeItem item u =
     item\<lparr> item_type := spread (item_type item) (upd_type u),
           species := spread (species item) (upd_species u),
           quantity := spread (quantity item) (upd_quantity u),
           unitPrice := spread (unitPrice item) (upd_unitPrice u),
           buyPrice := spread (buyPrice item) (upd_buyPrice u),
           sellPrice := spread (sellPrice item) (upd_sellPrice u),
           location := spread_opt (location item) (upd_location u),
           item_notes := spread_opt (item_notes item) (upd_notes u) \<rparr>"

definition recalculate :: "stockItem \<Rightarrow> stockItem" where
  "recalculate updatedItem =
     (let buyPrice' = jsor (buyPrice updatedItem) 0;
          sellPrice' = jsor (sellPrice updatedItem) (jsor (unitPrice updatedItem) 0);
          totalRevenue' = (quantity updatedItem * sellPrice') / 1000;
          totalCost' = (quantity updatedItem * buyPrice') / 1000
      in updatedItem\<lparr> totalRevenue := totalRevenue',
                        totalCost := totalCost',
                        totalProfit := totalRevenue' - totalCost',
                        totalPrice := totalRevenue',
                        unitPrice := sellPrice' \<rparr>)"

definition updateStockItem ::
  "dataStore \<Rightarrow> string \<Rightarrow> stockItemUpdates \<Rightarrow> stockItem option \<times> dataStore" where
  "updateStockItem s ident u =
     (case findIndex (\<lambda>item. item_id item = ident) (stockItems s) of
        None \<Rightarrow> (None, s)
      | Some index \<Rightarrow>
          (let merged = mergeItem (stockItems s ! index) u;
               updatedItem =
                 (if present (upd_quantity u) \<or> present (upd_unitPrice u)
                     \<or> present (upd_buyPrice u) \<or> present (upd_sellPrice u)
                  then recalculate merged else merged)
           in (Some updatedItem, s\<lparr>stockItems := (stockItems s)[index := updatedItem]\<rparr>)))"

definition deleteStockItem :: "dataStore \<Rightarrow> string \<Rightarrow> bool \<times> dataStore" where
  "deleteStockItem s ident =
     (case findIndex (\<lambda>item. item_id item = ident) (stockItems s) of
        None \<Rightarrow> (False, s)
      | Some index \<Rightarrow> (True, s\<lparr>stockItems := splice1 index (stockItems s)\<rparr>))"

definition getStockItemById :: "dataStore \<Rightarrow> string \<Rightarrow> stockItem option" where
  "getStockItemById s ident = find (\<lambda>item. item_id item = ident) (stockItems s)"

definition getStockItemsByUser :: "dataStore \<Rightarrow> string \<Rightarrow> stockItem list" where
  "getStockItemsByUser s uid = filter (\<lambda>item. userId item = uid) (stockItems s)"

section \<open>Identity registry\<close>

definition createUser :: "dataStore \<Rightarrow> string \<Rightarrow> jsdate \<Rightarrow> string \<Rightarrow> user \<times> dataStore" where
  "createUser s newId now alias =
     (let u = \<lparr> user_id = newId, aliasName = alias, createdAt = now,
                revenue = 0, profit = 0 \<rparr>
      in (u, s\<lparr>users := users s @ [u]\<rparr>))"

text \<open>The two \<^verbatim>\<open>reduce\<close> calls of \<^verbatim>\<open>getUserById\<close> and \<^verbatim>\<open>getAllUsers\<close>.\<close>

definition userRevenue :: "stockItem list \<Rightarrow> real" where
  "userRevenue userItems =
     foldl (\<lambda>total item. total + jsor (totalRevenue item) (jsor (totalPrice item) 0))
       0 userItems"

definition userProfit :: "stockItem list \<Rightarrow> real" where
  "userProfit userItems =
     foldl (\<lambda>total item.
              total + jsor (totalProfit item)
                        (jsor (totalRevenue item) (jsor (totalPrice item) 0)))
       0 userItems"

definition withTotals :: "dataStore \<Rightarrow> user \<Rightarrow> user" where
  "withTotals s u =
     (let userItems = filter (\<lambda>item. userId item = user_id u) (stockItems s)
      in u\<lparr> revenue := userRevenue userItems, profit := userProfit userItems \<rparr>)"

definition getUserById :: "dataStore \<Rightarrow> string \<Rightarrow> user option" where
  "getUserById s ident =
     (case find (\<lambda>u. user_id u = ident) (users s) of
        None \<Rightarrow> None
      | Some u \<Rightarrow> Some (withTotals s u))"

definition getAllUsers :: "dataStore \<Rightarrow> user list" where
  "getAllUsers s = map (withTotals s) (users s)"

section \<open>Aggregation engine\<close>

definition emptyYear :: yearly where
  "emptyYear = \<lparr> yr_revenue = 0, yr_cost = 0, yr_profit = 0, itemCount = 0 \<rparr>"

text \<open>
  One round of the \<^verbatim>\<open>forEach\<close> of \<^verbatim>\<open>getUserProfitByYear\<close>.  The field
  \<^verbatim>\<open>totalProfit\<close> of a stock item is a number, so the test
  \<^verbatim>\<open>item.totalProfit !== undefined\<close> holds and the profit added is the stored one.
\<close>

definition addItem :: "(int \<rightharpoonup> yearly) \<Rightarrow> stockItem \<Rightarrow> (int \<rightharpoonup> yearly)" where
  "addItem yearlyData item =
     (let y = getFullYear (collectedAt item);
          cur = (case yearlyData y of None \<Rightarrow> emptyYear | Some v \<Rightarrow> v);
          revenue' = jsor (totalRevenue item) (jsor (totalPrice item) 0);
          cost' = jsor (totalCost item) 0;
          profit' = totalProfit item
      in yearlyData(y \<mapsto> \<lparr> yr_revenue = yr_revenue cur + revenue',
                            yr_cost = yr_cost cur + cost',
                            yr_profit = yr_profit cur + profit',
                            itemCount = itemCount cur + 1 \<rparr>))"

definition salesOf :: "dataStore \<Rightarrow> string \<Rightarrow> category option \<Rightarrow> stockItem list" where
  "salesOf s uid typeFilter =
     (let userItems = filter (\<lambda>item. userId item = uid) (stockItems s);
          userItems = filter (\<lambda>item. sellPrice item > 0 \<and> buyPrice item > 0) userItems
      in case typeFilter of
           None \<Rightarrow> userItems
         | Some t \<Rightarrow> filter (\<lambda>item. item_type item = t) userItems)"

definition getUserProfitByYear ::
  "dataStore \<Rightarrow> string \<Rightarrow> category option \<Rightarrow> (int \<rightharpoonup> yearly)" where
  "getUserProfitByYear s uid typeFilter = foldl addItem Map.empty (salesOf s uid typeFilter)"

text \<open>The market view \<^verbatim>\<open>getPriceProfitAnalysis\<close>, over the price table.\<close>

definition addPrice :: "(int \<rightharpoonup> yearly) \<Rightarrow> price \<Rightarrow> (int \<rightharpoonup> yearly)" where
  "addPrice yearlyData p =
     (let y = year p;
          cur = (case yearlyData y of None \<Rightarrow> emptyYear | Some v \<Rightarrow> v);
          profitPerKg = price_sellPrice p - price_buyPrice p
      in yearlyData(y \<mapsto> \<lparr> yr_revenue = yr_revenue cur + price_sellPrice p,
                            yr_cost = yr_cost cur + price_buyPrice p,
                            yr_profit = yr_profit cur + profitPerKg,
                            itemCount = itemCount cur + 1 \<rparr>))"

definition getPriceProfitAnalysis :: "dataStore \<Rightarrow> category option \<Rightarrow> (int \<rightharpoonup> yearly)" where
  "getPriceProfitAnalysis s typeFilter =
     (let filteredPrices =
            (case typeFilter of
               None \<Rightarrow> prices s
             | Some t \<Rightarrow> filter (\<lambda>p. price_type p = t) (prices s))
      in foldl addPrice Map.empty filteredPrices)"

section \<open>Price reference table\<close>

record priceData =
  pd_type :: category
  pd_species :: string
  pd_year :: int
  pd_buyPrice :: real
  pd_sellPrice :: real

definition sameTriple :: "priceData \<Rightarrow> price \<Rightarrow> bool" where
  "sameTriple pd p \<longleftrightarrow>
     price_type p = pd_type pd \<and> price_species p = pd_species pd \<and> year p = pd_year pd"

definition createPrice ::
  "dataStore \<Rightarrow> string \<Rightarrow> jsdate \<Rightarrow> priceData \<Rightarrow> price \<times> dataStore" where
  "createPrice s newId now pd =
     (let p = \<lparr> price_id = newId, price_type = pd_type pd, price_species = pd_species pd,
                year = pd_year pd, price_buyPrice = pd_buyPrice pd,
                price_sellPrice = pd_sellPrice pd, updatedAt = now \<rparr>
      in case findIndex (sameTriple pd) (prices s) of
           Some existingIndex \<Rightarrow>
             (let q = (prices s ! existingIndex)
                        \<lparr> price_type := pd_type pd, price_species := pd_species pd,
                          year := pd_year pd, price_buyPrice := pd_buyPrice pd,
                          price_sellPrice := pd_sellPrice pd, updatedAt := now \<rparr>
              in (q, s\<lparr>prices := (prices s)[existingIndex := q]\<rparr>))
         | None \<Rightarrow> (p, s\<lparr>prices := prices s @ [p]\<rparr>))"

text \<open>
  The partial update of \<^verbatim>\<open>updatePrice\<close>: its type leaves out id, type, species and
  year, and \<^verbatim>\<open>updatedAt\<close> is overwritten by the clock.
\<close>

record priceUpdates =
  pu_buyPrice :: "real option"
  pu_sellPrice :: "real option"

definition updatePrice ::
  "dataStore \<Rightarrow> string \<Rightarrow> jsdate \<Rightarrow> priceUpdates \<Rightarrow> price option \<times> dataStore" where
  "updatePrice s ident now u =
     (case findIndex (\<lambda>p. price_id p = ident) (prices s) of
        None \<Rightarrow> (None, s)
      | Some index \<Rightarrow>
          (let old = prices s ! index;
               q = old\<lparr> price_buyPrice := spread (price_buyPrice old) (pu_buyPrice u),
                        price_sellPrice := spread (price_sellPrice old) (pu_sellPrice u),
                        updatedAt := now \<rparr>
           in (Some q, s\<lparr>prices := (prices s)[index := q]\<rparr>)))"

definition deletePrice :: "dataStore \<Rightarrow> string \<Rightarrow> bool \<times> dataStore" where
  "deletePrice s ident =
     (case findIndex (\<lambda>p. price_id p = ident) (prices s) of
        None \<Rightarrow> (False, s)
      | Some index \<Rightarrow> (True, s\<lparr>prices := splice1 index (prices s)\<rparr>))"

text \<open>
  \<^verbatim>\<open>getCurrentPrice\<close>.  \<^verbatim>\<open>sort((a, b) => b.year - a.year)\<close> is a stable sort by
  descending year, here the stable insertion sort on the negated year; element 0 of an
  empty array is \<^verbatim>\<open>undefined\<close>.
\<close>

definition getCurrentPrice :: "dataStore \<Rightarrow> jsdate \<Rightarrow> category \<Rightarrow> string \<Rightarrow> price option" where
  "getCurrentPrice s now t sp =
     (let currentYear = getFullYear now
      in case find (\<lambda>p. price_type p = t \<and> price_species p = sp \<and> year p = currentYear)
                (prices s) of
           Some p \<Rightarrow> Some p
         | None \<Rightarrow>
             (let pricesForSpecies =
                    sort_key (\<lambda>p. - year p)
                      (filter (\<lambda>p. price_type p = t \<and> price_species p = sp) (prices s))
              in case pricesForSpecies of [] \<Rightarrow> None | p # _ \<Rightarrow> Some p))"

section \<open>Inventory calculator\<close>

record inventoryRow =
  inv_type :: category
  inv_species :: string
  totalPurchased :: real
  totalSold :: real

record inventoryEntry = inventoryRow +
  availableQuantity :: real

fun categoryName :: "category \<Rightarrow> string" where
  "categoryName berry = ''berry''"
| "categoryName mushroom = ''mushroom''"

text \<open>The key \<^verbatim>\<open>`${item.type}:${item.species}`\<close> of the grouping map.\<close>

definition inventoryKey :: "stockItem \<Rightarrow> string" where
  "inventoryKey item = categoryName (item_type item) @ '':'' @ species item"

text \<open>
  The \<^verbatim>\<open>Map\<close> keeps its entries in insertion order; it is an association list,
  \<open>map_of\<close> is \<^verbatim>\<open>get\<close> and \<open>AList.update\<close> is \<^verbatim>\<open>set\<close> (in place for a key
  that is there, at the end for a new one).  One round of the \<^verbatim>\<open>forEach\<close>:
\<close>

definition countItem ::
  "(string \<times> inventoryRow) list \<Rightarrow> stockItem \<Rightarrow> (string \<times> inventoryRow) list" where
  "countItem inventoryMap item =
     (let key = inventoryKey item;
          m = (if map_of inventoryMap key = None
               then AList.update key
                      \<lparr> inv_type = item_type item, inv_species = species item,
                        totalPurchased = 0, totalSold = 0 \<rparr> inventoryMap
               else inventoryMap)
      in case map_of m key of
           None \<Rightarrow> m
         | Some inventory \<Rightarrow>
             (if buyPrice item > 0 \<and> sellPrice item = 0
              then AList.update key
                     (inventory\<lparr>totalPurchased := totalPurchased inventory + quantity item\<rparr>) m
              else if sellPrice item > 0
              then AList.update key
                     (inventory\<lparr>totalSold := totalSold inventory + quantity item\<rparr>) m
              else m))"

definition withAvailable :: "inventoryRow \<Rightarrow> inventoryEntry" where
  "withAvailable inventory =
     inventoryRow.extend inventory
       (inventoryEntry.fields (totalPurchased inventory - totalSold inventory))"

text \<open>
  The filters are applied when truthy: a category when given, a species when given and
  not the empty string.
\<close>

definition inventoryItems ::
  "dataStore \<Rightarrow> string \<Rightarrow> category option \<Rightarrow> string option \<Rightarrow> stockItem list" where
  "inventoryItems s uid typeFilter speciesFilter =
     (let userItems = filter (\<lambda>item. userId item = uid) (stockItems s);
          userItems = (case typeFilter of
                         None \<Rightarrow> userItems
                       | Some t \<Rightarrow> filter (\<lambda>item. item_type item = t) userItems)
      in case speciesFilter of
           None \<Rightarrow> userItems
         | Some sp \<Rightarrow>
             if sp = [] then userItems
             else filter (\<lambda>item. species item = sp) userItems)"

definition getAvailableInventory ::
  "dataStore \<Rightarrow> string \<Rightarrow> category option \<Rightarrow> string option \<Rightarrow> inventoryEntry list" where
  "getAvailableInventory s uid typeFilter speciesFilter =
     map (withAvailable \<circ> snd)
       (foldl countItem [] (inventoryItems s uid typeFilter speciesFilter))"

section \<open>Integrity auditor\<close>

text \<open>
  The two warning messages, by their template and the values written into it: the first
  names the item's id and sell price, the second the item's id.
\<close>

datatype warning = NoBuyPrice string real | ValuesDontMatch string

record integrityReport =
  inconsistentItems :: "stockItem list"
  warnings :: "warning list"

definition miscategorized :: "stockItem \<Rightarrow> bool" where
  "miscategorized item \<longleftrightarrow> sellPrice item > 0 \<and> buyPrice item = 0"

definition miscalculated :: "stockItem \<Rightarrow> bool" where
  "miscalculated item \<longleftrightarrow>
     sellPrice item > 0 \<and> buyPrice item > 0 \<and>
     (let expectedRevenue = (quantity item * sellPrice item) / 1000;
          expectedCost = (quantity item * buyPrice item) / 1000;
          expectedProfit = expectedRevenue - expectedCost
      in \<bar>totalRevenue item - expectedRevenue\<bar> > 0.01 \<or>
         \<bar>totalCost item - expectedCost\<bar> > 0.01 \<or>
         \<bar>totalProfit item - expectedProfit\<bar> > 0.01)"

definition auditItem :: "integrityReport \<Rightarrow> stockItem \<Rightarrow> integrityReport" where
  "auditItem r item =
     (let r1 = (if miscategorized item
                then r\<lparr> inconsistentItems := inconsistentItems r @ [item],
                        warnings := warnings r @ [NoBuyPrice (item_id item) (sellPrice item)] \<rparr>
                else r)
      in if miscalculated item
         then r1\<lparr> inconsistentItems := inconsistentItems r1 @ [item],
                   warnings := warnings r1 @ [ValuesDontMatch (item_id item)] \<rparr>
         else r1)"

text \<open>The audit returns its report; the store it leaves behind is returned beside it.\<close>

definition validateDataIntegrity :: "dataStore \<Rightarrow> integrityReport \<times> dataStore" where
  "validateDataIntegrity s =
     (foldl auditItem \<lparr> inconsistentItems = [], warnings = [] \<rparr> (stockItems s), s)"

section \<open>The request handler in front of \<^verbatim>\<open>createStockItem\<close>\<close>

text \<open>
  The body of a \<^verbatim>\<open>POST /api/stock\<close> request: every property may be missing.
\<close>

record createStockItemRequest =
  r_userId :: "string option"
  r_type :: "string option"
  r_species :: "string option"
  r_quantity :: "real option"
  r_unitPrice :: "real option"
  r_buyPrice :: "real option"
  r_sellPrice :: "real option"
  r_location :: "string option"
  r_notes :: "string option"

datatype response = Created stockItem | BadRequest string | NotFound string

definition categoryOfName :: "string \<Rightarrow> category option" where
  "categoryOfName n =
     (if n = ''berry'' then Some berry
      else if n = ''mushroom'' then Some mushroom else None)"

text \<open>\<^verbatim>\<open>trim()\<close> on ASCII text: blanks, tabs and line ends go from both ends.\<close>

definition isSpace :: "char \<Rightarrow> bool" where
  "isSpace c \<longleftrightarrow> c \<in> set [CHR 0x09, CHR 0x0A, CHR 0x0B, CHR 0x0C, CHR 0x0D, CHR 0x20]"

definition trim :: "string \<Rightarrow> string" where
  "trim str = rev (dropWhile isSpace (rev (dropWhile isSpace str)))"

definition negative :: "real option \<Rightarrow> bool" where
  "negative a = (case a of None \<Rightarrow> False | Some x \<Rightarrow> x < 0)"

definition controller_createStockItem ::
  "dataStore \<Rightarrow> string \<Rightarrow> jsdate \<Rightarrow> createStockItemRequest \<Rightarrow> response \<times> dataStore" where
  "controller_createStockItem s newId now r =
     (case (r_userId r, r_type r, r_species r, r_quantity r) of
        (Some uid, Some ty, Some sp, Some q) \<Rightarrow>
          if uid = [] \<or> ty = [] \<or> sp = [] \<or> q = 0
          then (BadRequest ''All required fields must be provided'', s)
          else if r_unitPrice r = None \<and> r_sellPrice r = None
          then (BadRequest ''Either unitPrice (legacy) or sellPrice must be provided'', s)
          else (case categoryOfName ty of
                  None \<Rightarrow> (BadRequest ''Type must be either berry or mushroom'', s)
                | Some t \<Rightarrow>
                    if q \<le> 0
                    then (BadRequest ''Quantity must be greater than 0'', s)
                    else if negative (r_unitPrice r)
                    then (BadRequest ''Unit price must be greater than or equal to 0'', s)
                    else if negative (r_buyPrice r)
                    then (BadRequest ''Buy price must be greater than or equal to 0'', s)
                    else if negative (r_sellPrice r)
                    then (BadRequest ''Sell price must be greater than or equal to 0'', s)
                    else if getUserById s uid = None
                    then (NotFound ''User not found'', s)
                    else
                      (let finalBuyPrice = or_else (r_buyPrice r) 0;
                           finalSellPrice = or_else (r_sellPrice r) (or_else (r_unitPrice r) 0);
                           finalUnitPrice = or_else (r_unitPrice r) finalSellPrice;
                           (stockItem, s') =
                             createStockItem s newId now
                               \<lparr> d_userId = uid, d_type = t, d_species = trim sp,
                                 d_quantity = q, d_unitPrice = Some finalUnitPrice,
                                 d_buyPrice = Some finalBuyPrice,
                                 d_sellPrice = Some finalSellPrice,
                                 d_location =
                                   Some (case r_location r of None \<Rightarrow> [] | Some l \<Rightarrow> trim l),
                                 d_notes = map_option trim (r_notes r) \<rparr>
                       in (Created stockItem, s')))
      | _ \<Rightarrow> (BadRequest ''All required fields must be provided'', s))"

section \<open>States of the price table\<close>

text \<open>
  The stores that the three writing operations of the price table reach from a store
  with no price in it.
\<close>

inductive priceReachable :: "dataStore \<Rightarrow> bool" where
  start: "prices s = [] \<Longrightarrow> priceReachable s"
| upsert: "priceReachable s \<Longrightarrow> priceReachable (snd (createPrice s newId now pd))"
| update: "priceReachable s \<Longrightarrow> priceReachable (snd (updatePrice s ident now u))"
| delete: "priceReachable s \<Longrightarrow> priceReachable (snd (deletePrice s ident))"

definition triple :: "price \<Rightarrow> category \<times> string \<times> int" where
  "triple p = (price_type p, price_species p, year p)"

section \<open>Concrete stores and requests\<close>

definition date2024 :: jsdate where
  "date2024 = \<lparr> epochMillis = 1717200000000, getFullYear = 2024 \<rparr>"

definition emptyStore :: dataStore where
  "emptyStore = \<lparr> users = [], stockItems = [], prices = [] \<rparr>"

text \<open>A legacy creation: one kilogram, no sell price, a unit price of 5.\<close>

definition legacyData :: stockItemData where
  "legacyData =
     \<lparr> d_userId = ''u1'', d_type = berry, d_species = ''blueberry'', d_quantity = 1000,
       d_unitPrice = Some 5, d_buyPrice = Some 0, d_sellPrice = Some 0,
       d_location = None, d_notes = None \<rparr>"

text \<open>A sale of 200 g bought at 3 and sold at 6 per kilogram.\<close>

definition saleData :: stockItemData where
  "saleData =
     \<lparr> d_userId = ''u1'', d_type = berry, d_species = ''blueberry'', d_quantity = 200,
       d_unitPrice = Some 6, d_buyPrice = Some 3, d_sellPrice = Some 6,
       d_location = None, d_notes = None \<rparr>"

text \<open>A purchase of 500 g at 3 per kilogram, as \<^verbatim>\<open>createBuyItem\<close> passes it on.\<close>

definition purchaseData :: stockItemData where
  "purchaseData =
     \<lparr> d_userId = ''u1'', d_type = berry, d_species = ''blueberry'', d_quantity = 500,
       d_unitPrice = Some 0, d_buyPrice = Some 3, d_sellPrice = Some 0,
       d_location = None, d_notes = None \<rparr>"

definition twoItemStore :: dataStore where
  "twoItemStore =
     snd (createStockItem (snd (createStockItem emptyStore ''item-1'' date2024 purchaseData))
            ''item-2'' date2024 saleData)"

definition soldStore :: dataStore where
  "soldStore = snd (createStockItem emptyStore ''item-1'' date2024 saleData)"

text \<open>A registered user, and a legacy request that names a unit price only.\<close>

definition aliceStore :: dataStore where
  "aliceStore = snd (createUser emptyStore ''u1'' date2024 ''Alice'')"

definition legacyRequest :: createStockItemRequest where
  "legacyRequest =
     \<lparr> r_userId = Some ''u1'', r_type = Some ''berry'', r_species = Some ''blueberry'',
       r_quantity = Some 1000, r_unitPrice = Some 5, r_buyPrice = None, r_sellPrice = None,
       r_location = None, r_notes = None \<rparr>"

definition legacyItem :: stockItem where
  "legacyItem =
     \<lparr> item_id = ''item-1'', userId = ''u1'', item_type = berry, species = ''blueberry'',
       quantity = 1000, unitPrice = 5, buyPrice = 0, sellPrice = 5, totalRevenue = 5,
       totalCost = 0, totalProfit = 5, totalPrice = 5, location = Some [],
       collectedAt = date2024, item_notes = None \<rparr>"

text \<open>A sale at break-even: one kilogram bought and sold at 5 per kilogram.\<close>

definition breakEvenData :: stockItemData where
  "breakEvenData =
     \<lparr> d_userId = ''u1'', d_type = berry, d_species = ''blueberry'', d_quantity = 1000,
       d_unitPrice = Some 5, d_buyPrice = Some 5, d_sellPrice = Some 5,
       d_location = None, d_notes = None \<rparr>"

definition breakEvenStore :: dataStore where
  "breakEvenStore = snd (createStockItem aliceStore ''item-1'' date2024 breakEvenData)"

text \<open>
  A ledger for the audit: a sale without buy price, a sale whose stored profit was
  overwritten, and an untouched sale.
\<close>

definition tamperedItem :: stockItem where
  "tamperedItem = (fst (createStockItem emptyStore ''item-2'' date2024 saleData))\<lparr>totalProfit := 10\<rparr>"

definition consistentItem :: stockItem where
  "consistentItem = fst (createStockItem emptyStore ''item-3'' date2024 saleData)"

definition auditStore :: dataStore where
  "auditStore = \<lparr> users = [], stockItems = [legacyItem, tamperedItem, consistentItem], prices = [] \<rparr>"

text \<open>The price table of the market scenario: two entries for 2024.\<close>

definition marketData1 :: priceData where
  "marketData1 = \<lparr> pd_type = berry, pd_species = ''blueberry'', pd_year = 2024,
     pd_buyPrice = 2, pd_sellPrice = 5 \<rparr>"

definition marketData2 :: priceData where
  "marketData2 = \<lparr> pd_type = mushroom, pd_species = ''chanterelle'', pd_year = 2024,
     pd_buyPrice = 1, pd_sellPrice = 4 \<rparr>"

definition marketStore :: dataStore where
  "marketStore =
     snd (createPrice (snd (createPrice emptyStore ''price-1'' date2024 marketData1))
            ''price-2'' date2024 marketData2)"

text \<open>A later clock, a new price for an existing triple, and an entry of an older year.\<close>

definition date2025 :: jsdate where
  "date2025 = \<lparr> epochMillis = 1748736000000, getFullYear = 2025 \<rparr>"

definition repricedData :: priceData where
  "repricedData = \<lparr> pd_type = berry, pd_species = ''blueberry'', pd_year = 2024,
     pd_buyPrice = 3, pd_sellPrice = 7 \<rparr>"

definition olderData :: priceData where
  "olderData = \<lparr> pd_type = berry, pd_species = ''blueberry'', pd_year = 2022,
     pd_buyPrice = 1, pd_sellPrice = 3 \<rparr>"

definition historyStore :: dataStore where
  "historyStore = snd (createPrice marketStore ''price-3'' date2024 olderData)"

text \<open>Partial updates: one with only notes, one that sets the sell price to zero.\<close>

definition notesUpdate :: stockItemUpdates where
  "notesUpdate =
     \<lparr> upd_type = None, upd_species = None, upd_quantity = None, upd_unitPrice = None,
       upd_buyPrice = None, upd_sellPrice = None, upd_location = None,
       upd_notes = Some ''ripe'' \<rparr>"

definition zeroSellUpdate :: stockItemUpdates where
  "zeroSellUpdate =
     \<lparr> upd_type = None, upd_species = None, upd_quantity = None, upd_unitPrice = None,
       upd_buyPrice = None, upd_sellPrice = Some 0, upd_location = None,
       upd_notes = None \<rparr>"

section \<open>Basic facts\<close>

lemma or_else_simps [simp]:
  "or_else None b = b"
  "or_else (Some x) b = (if x \<noteq> 0 then x else b)"
  by (simp_all add: or_else_def)

lemma present_simps [simp]: "present None = False" "present (Some x) = True"
  by (simp_all add: present_def)

lemma jsor_zero [simp]: "jsor a 0 = a"
  by (simp add: jsor_def)

lemma foldl_plus: "foldl (\<lambda>total x. total + f x) (a::real) xs = a + sum_list (map f xs)"
  by (induction xs arbitrary: a) simp_all

lemma findIndex_None: "findIndex P xs = None \<longleftrightarrow> (\<forall>x\<in>set xs. \<not> P x)"
  by (induction xs) auto

lemma findIndex_Some:
  "findIndex P xs = Some i \<Longrightarrow> i < length xs \<and> P (xs ! i) \<and> (\<forall>x\<in>set (take i xs). \<not> P x)"
proof (induction xs arbitrary: i)
  case Nil
  then show ?case by simp
next
  case (Cons x xs)
  show ?case
  proof (cases "P x")
    case True
    with Cons.prems show ?thesis by simp
  next
    case False
    with Cons.prems obtain j where j: "findIndex P xs = Some j" "i = Suc j"
      by auto
    from Cons.IH [OF j(1)] False j(2) show ?thesis by simp
  qed
qed

lemma splice1_first:
  assumes "findIndex P xs = Some i"
  shows "\<exists>ys y zs. xs = ys @ y # zs \<and> P y \<and> (\<forall>x\<in>set ys. \<not> P x) \<and> splice1 i xs = ys @ zs"
proof -
  from findIndex_Some [OF assms]
  have i: "i < length xs" and p: "P (xs ! i)" and n: "\<forall>x\<in>set (take i xs). \<not> P x"
    by simp_all
  have "xs = take i xs @ xs ! i # drop (Suc i) xs"
    using i by (rule id_take_nth_drop)
  with p n show ?thesis unfolding splice1_def by blast
qed

lemma splice1_distinct:
  assumes "findIndex (\<lambda>x. f x = k) xs = Some i" and "distinct (map f xs)"
  shows "splice1 i xs = filter (\<lambda>x. f x \<noteq> k) xs"
proof -
  from splice1_first [OF assms(1)] obtain ys y zs
    where xs: "xs = ys @ y # zs" and y: "f y = k" and ys: "\<forall>x\<in>set ys. f x \<noteq> k"
      and sp: "splice1 i xs = ys @ zs"
    by blast
  from assms(2) xs have "f y \<notin> f ` set zs" by simp
  with y have "\<forall>x\<in>set zs. f x \<noteq> k" by (metis imageI)
  with ys have "filter (\<lambda>x. f x \<noteq> k) xs = ys @ zs"
    using xs y by simp
  with sp show ?thesis by simp
qed

section \<open>Creating a ledger record\<close>

text \<open>
  C1, as stated, fails: a creation with quantity 1000, buy price 0 and sell price 0 that
  carries a legacy unit price of 5 has a total revenue of 5, not 1000 * 0 / 1000.
\<close>

theorem create_revenue_from_unit_price:
  "0 < d_quantity legacyData \<and> d_buyPrice legacyData = Some 0
   \<and> d_sellPrice legacyData = Some 0
   \<and> totalRevenue (fst (createStockItem emptyStore ''item-1'' date2024 legacyData)) = 5
   \<and> totalRevenue (fst (createStockItem emptyStore ''item-1'' date2024 legacyData))
       \<noteq> d_quantity legacyData * 0 / 1000"
  by (simp add: legacyData_def createStockItem_def Let_def)

text \<open>
  C1, amended: for a creation with quantity \<open>q > 0\<close>, buy price \<open>b \<ge> 0\<close> and sell price
  \<open>sp \<ge> 0\<close>, the returned record is the one appended to the ledger, its total revenue
  is \<open>q\<close> times the effective sell price over 1000, where the effective sell price is
  \<open>sp\<close> when \<open>sp\<close> is not zero and otherwise the legacy unit price (zero when there is
  none); its total cost is \<open>q * b / 1000\<close> and its total profit is total revenue
  minus total cost.  So the total revenue is \<open>q * sp / 1000\<close> whenever \<open>sp > 0\<close> or no
  non-zero unit price is supplied.
\<close>

theorem createStockItem_totals:
  assumes "0 < d_quantity d" and "d_buyPrice d = Some b" and "0 \<le> b"
    and "d_sellPrice d = Some sp" and "0 \<le> sp"
  shows "totalRevenue (fst (createStockItem st newId now d)) =
           d_quantity d * (if sp \<noteq> 0 then sp else or_else (d_unitPrice d) 0) / 1000
       \<and> totalCost (fst (createStockItem st newId now d)) = d_quantity d * b / 1000
       \<and> totalProfit (fst (createStockItem st newId now d)) =
           totalRevenue (fst (createStockItem st newId now d))
             - totalCost (fst (createStockItem st newId now d))
       \<and> stockItems (snd (createStockItem st newId now d)) =
           stockItems st @ [fst (createStockItem st newId now d)]
       \<and> (falsy (d_unitPrice d) \<or> 0 < sp \<longrightarrow>
            totalRevenue (fst (createStockItem st newId now d)) = d_quantity d * sp / 1000)"
  using assms by (auto simp add: createStockItem_def Let_def falsy_def split: option.splits)

theorem createStockItem_totals_witness:
  "0 < d_quantity saleData \<and> d_buyPrice saleData = Some 3 \<and> d_sellPrice saleData = Some 6
   \<and> totalRevenue (fst (createStockItem emptyStore ''item-1'' date2024 saleData)) = 200 * 6 / 1000
   \<and> totalCost (fst (createStockItem emptyStore ''item-1'' date2024 saleData)) = 200 * 3 / 1000
   \<and> totalProfit (fst (createStockItem emptyStore ''item-1'' date2024 saleData)) = 3 / 5
   \<and> stockItems (snd (createStockItem emptyStore ''item-1'' date2024 saleData))
       = [fst (createStockItem emptyStore ''item-1'' date2024 saleData)]"
proof -
  have h: "0 < d_quantity saleData" "d_buyPrice saleData = Some 3" "(0::real) \<le> 3"
    "d_sellPrice saleData = Some 6" "(0::real) \<le> 6"
    by (simp_all add: saleData_def)
  from createStockItem_totals [OF h, of emptyStore "''item-1''" date2024] h
  show ?thesis by (simp add: saleData_def emptyStore_def)
qed

section \<open>Deleting a record, updating a missing one\<close>

text \<open>
  C9: \<^verbatim>\<open>deleteStockItem\<close> returns true exactly when the ledger holds a record with
  the id; it then removes the first record with that id (the only one when ids are
  distinct) and leaves the rest of the store as it was; when it returns false the store
  is unchanged.  \<^verbatim>\<open>updateStockItem\<close> returns null exactly when no record has the id,
  and then leaves the store unchanged.
\<close>

theorem delete_and_update_not_found:
  "(fst (deleteStockItem s i) \<longleftrightarrow> (\<exists>item\<in>set (stockItems s). item_id item = i))
   \<and> (fst (deleteStockItem s i) \<longrightarrow>
        (\<exists>ys y zs. stockItems s = ys @ y # zs \<and> item_id y = i
            \<and> (\<forall>x\<in>set ys. item_id x \<noteq> i)
            \<and> snd (deleteStockItem s i) = s\<lparr>stockItems := ys @ zs\<rparr>))
   \<and> (fst (deleteStockItem s i) \<and> distinct (map item_id (stockItems s)) \<longrightarrow>
        snd (deleteStockItem s i)
          = s\<lparr>stockItems := filter (\<lambda>x. item_id x \<noteq> i) (stockItems s)\<rparr>)
   \<and> (\<not> fst (deleteStockItem s i) \<longrightarrow> snd (deleteStockItem s i) = s)
   \<and> (fst (updateStockItem s i u) = None
        \<longleftrightarrow> \<not> (\<exists>item\<in>set (stockItems s). item_id item = i))
   \<and> (fst (updateStockItem s i u) = None \<longrightarrow> snd (updateStockItem s i u) = s)"
proof (cases "findIndex (\<lambda>item. item_id item = i) (stockItems s)")
  case None
  then have "\<not> (\<exists>item\<in>set (stockItems s). item_id item = i)"
    using findIndex_None [of "\<lambda>item. item_id item = i" "stockItems s"] by simp
  with None show ?thesis
    by (simp add: deleteStockItem_def updateStockItem_def)
next
  case (Some k)
  from Some have ex: "\<exists>item\<in>set (stockItems s). item_id item = i"
    using findIndex_None [of "\<lambda>item. item_id item = i" "stockItems s"] by auto
  from splice1_first [OF Some] obtain ys y zs
    where "stockItems s = ys @ y # zs" "item_id y = i" "\<forall>x\<in>set ys. item_id x \<noteq> i"
      "splice1 k (stockItems s) = ys @ zs"
    by blast
  then have a: "\<exists>ys y zs. stockItems s = ys @ y # zs \<and> item_id y = i
            \<and> (\<forall>x\<in>set ys. item_id x \<noteq> i)
            \<and> snd (deleteStockItem s i) = s\<lparr>stockItems := ys @ zs\<rparr>"
    using Some by (auto simp add: deleteStockItem_def)
  have b: "distinct (map item_id (stockItems s)) \<longrightarrow>
        snd (deleteStockItem s i)
          = s\<lparr>stockItems := filter (\<lambda>x. item_id x \<noteq> i) (stockItems s)\<rparr>"
    using Some splice1_distinct [OF Some] by (simp add: deleteStockItem_def)
  have c: "fst (deleteStockItem s i)" "fst (updateStockItem s i u) \<noteq> None"
    using Some by (simp_all add: deleteStockItem_def updateStockItem_def Let_def)
  from a b c ex show ?thesis by blast
qed

theorem delete_and_update_not_found_witness:
  "fst (deleteStockItem twoItemStore ''item-1'')
   \<and> distinct (map item_id (stockItems twoItemStore))
   \<and> stockItems (snd (deleteStockItem twoItemStore ''item-1''))
       = [fst (createStockItem emptyStore ''item-2'' date2024 saleData)]
   \<and> \<not> fst (deleteStockItem twoItemStore ''item-3'')
   \<and> snd (deleteStockItem twoItemStore ''item-3'') = twoItemStore
   \<and> fst (updateStockItem twoItemStore ''item-3'' notesUpdate) = None
   \<and> snd (updateStockItem twoItemStore ''item-3'' notesUpdate) = twoItemStore"
proof -
  have items: "stockItems twoItemStore =
     [fst (createStockItem emptyStore ''item-1'' date2024 purchaseData),
      fst (createStockItem emptyStore ''item-2'' date2024 saleData)]"
    by (simp add: twoItemStore_def createStockItem_def Let_def emptyStore_def)
  have ids:
    "item_id (fst (createStockItem emptyStore ''item-1'' date2024 purchaseData)) = ''item-1''"
    "item_id (fst (createStockItem emptyStore ''item-2'' date2024 saleData)) = ''item-2''"
    by (simp_all add: createStockItem_def Let_def)
  from delete_and_update_not_found [of twoItemStore "''item-1''" notesUpdate]
    delete_and_update_not_found [of twoItemStore "''item-3''" notesUpdate]
  show ?thesis
    by (simp add: items ids)
qed

section \<open>The legacy unit price at creation\<close>

lemma controller_created:
  assumes "controller_createStockItem st newId now r = (Created item, st')"
  shows "\<exists>uid t sp q. r_quantity r = Some q \<and> 0 < q \<and>
     createStockItem st newId now
        \<lparr> d_userId = uid, d_type = t, d_species = sp, d_quantity = q,
          d_unitPrice =
            Some (or_else (r_unitPrice r)
                    (or_else (r_sellPrice r) (or_else (r_unitPrice r) 0))),
          d_buyPrice = Some (or_else (r_buyPrice r) 0),
          d_sellPrice = Some (or_else (r_sellPrice r) (or_else (r_unitPrice r) 0)),
          d_location = Some (case r_location r of None \<Rightarrow> [] | Some l \<Rightarrow> trim l),
          d_notes = map_option trim (r_notes r) \<rparr> = (item, st')"
  using assms unfolding controller_createStockItem_def Let_def
  by (simp split: option.splits if_splits prod.splits del: or_else_simps) blast+

text \<open>
  C10: when the supplied sell price is zero or absent and the legacy unit price is
  \<open>u > 0\<close>, the record that \<^verbatim>\<open>createStockItem\<close> stores has sell price \<open>u\<close>, total
  revenue quantity times \<open>u\<close> over 1000 and a total price equal to its total revenue; its
  revenue is positive when the quantity is; its sell price is positive, so it is a sale
  and not a purchase.  The same holds for the
  record a successful \<^verbatim>\<open>POST\<close> request creates through the handler.  The stored total
  price equals the total revenue for every creation.
\<close>

theorem legacy_unit_price_coupling:
  "(falsy (d_sellPrice d) \<and> d_unitPrice d = Some u \<and> 0 < u \<longrightarrow>
      sellPrice (fst (createStockItem st newId now d)) = u
    \<and> totalRevenue (fst (createStockItem st newId now d)) = d_quantity d * u / 1000
    \<and> totalPrice (fst (createStockItem st newId now d)) = d_quantity d * u / 1000
    \<and> (0 < d_quantity d \<longrightarrow> 0 < totalRevenue (fst (createStockItem st newId now d)))
    \<and> 0 < sellPrice (fst (createStockItem st newId now d))
    \<and> \<not> (0 < buyPrice (fst (createStockItem st newId now d))
          \<and> sellPrice (fst (createStockItem st newId now d)) = 0)
    \<and> stockItems (snd (createStockItem st newId now d))
        = stockItems st @ [fst (createStockItem st newId now d)])
   \<and> (falsy (r_sellPrice r) \<and> r_unitPrice r = Some u \<and> 0 < u
       \<and> controller_createStockItem st newId now r = (Created item, st') \<longrightarrow>
      sellPrice item = u
    \<and> map_option (\<lambda>q. q * u / 1000) (r_quantity r) = Some (totalRevenue item)
    \<and> 0 < totalRevenue item
    \<and> totalPrice item = totalRevenue item
    \<and> 0 < sellPrice item
    \<and> \<not> (0 < buyPrice item \<and> sellPrice item = 0)
    \<and> stockItems st' = stockItems st @ [item])
   \<and> totalPrice (fst (createStockItem st newId now d))
       = totalRevenue (fst (createStockItem st newId now d))"
proof (intro conjI impI)
  assume a: "falsy (r_sellPrice r) \<and> r_unitPrice r = Some u \<and> 0 < u
       \<and> controller_createStockItem st newId now r = (Created item, st')"
  then obtain uid t sp q where q: "r_quantity r = Some q" and pos: "0 < q"
    and c: "createStockItem st newId now
        \<lparr> d_userId = uid, d_type = t, d_species = sp, d_quantity = q,
          d_unitPrice =
            Some (or_else (r_unitPrice r)
                    (or_else (r_sellPrice r) (or_else (r_unitPrice r) 0))),
          d_buyPrice = Some (or_else (r_buyPrice r) 0),
          d_sellPrice = Some (or_else (r_sellPrice r) (or_else (r_unitPrice r) 0)),
          d_location = Some (case r_location r of None \<Rightarrow> [] | Some l \<Rightarrow> trim l),
          d_notes = map_option trim (r_notes r) \<rparr> = (item, st')"
    using controller_created by blast
  from a have e: "or_else (r_sellPrice r) (or_else (r_unitPrice r) 0) = u"
    "or_else (r_unitPrice r) u = u"
    by (auto simp add: falsy_def split: option.splits)
  from c [symmetric] e have item: "sellPrice item = u" "totalRevenue item = q * u / 1000"
    "totalPrice item = totalRevenue item" "stockItems st' = stockItems st @ [item]"
    by (simp_all add: createStockItem_def Let_def)
  from item show "sellPrice item = u" by simp
  from item q show "map_option (\<lambda>q. q * u / 1000) (r_quantity r) = Some (totalRevenue item)"
    by simp
  from pos a have "0 < q * u / 1000" by simp
  with item show "0 < totalRevenue item" by (simp only:)
  from item show "totalPrice item = totalRevenue item" by simp
  from item a show "0 < sellPrice item" by simp
  from item a show "\<not> (0 < buyPrice item \<and> sellPrice item = 0)" by simp
  from item show "stockItems st' = stockItems st @ [item]" by simp
qed (auto simp add: createStockItem_def Let_def falsy_def split: option.splits)

theorem legacy_unit_price_coupling_witness:
  "falsy (d_sellPrice legacyData) \<and> d_unitPrice legacyData = Some 5
   \<and> sellPrice (fst (createStockItem aliceStore ''item-1'' date2024 legacyData)) = 5
   \<and> totalRevenue (fst (createStockItem aliceStore ''item-1'' date2024 legacyData))
       = 1000 * 5 / 1000
   \<and> falsy (r_sellPrice legacyRequest) \<and> r_unitPrice legacyRequest = Some 5
   \<and> controller_createStockItem aliceStore ''item-1'' date2024 legacyRequest
       = (Created legacyItem, aliceStore\<lparr>stockItems := [legacyItem]\<rparr>)
   \<and> sellPrice legacyItem = 5 \<and> totalRevenue legacyItem = 1000 * 5 / 1000
   \<and> totalPrice legacyItem = totalRevenue legacyItem"
proof -
  have u: "getUserById aliceStore ''u1'' \<noteq> None"
    by (simp add: getUserById_def aliceStore_def createUser_def Let_def emptyStore_def)
  have c: "controller_createStockItem aliceStore ''item-1'' date2024 legacyRequest
       = (Created legacyItem, aliceStore\<lparr>stockItems := [legacyItem]\<rparr>)"
    using u
    by (simp add: controller_createStockItem_def legacyRequest_def categoryOfName_def
        negative_def createStockItem_def Let_def legacyItem_def trim_def isSpace_def)
      (simp add: aliceStore_def createUser_def Let_def emptyStore_def)
  have h: "falsy (d_sellPrice legacyData)" "d_unitPrice legacyData = Some 5"
    "falsy (r_sellPrice legacyRequest)" "r_unitPrice legacyRequest = Some 5"
    by (simp_all add: legacyData_def legacyRequest_def falsy_def)
  from legacy_unit_price_coupling [where d = legacyData and r = legacyRequest and u = 5
      and st = aliceStore and newId = "''item-1''" and now = date2024 and item = legacyItem
      and st' = "aliceStore\<lparr>stockItems := [legacyItem]\<rparr>"]
    h c
  show ?thesis by (simp add: legacyData_def legacyItem_def)
qed

section \<open>Updating a record\<close>

text \<open>
  An update that carries only notes changes the notes of the record and nothing else.
\<close>

lemma update_only_notes:
  assumes "findIndex (\<lambda>item. item_id item = i) (stockItems s) = Some k"
    and "upd_type u = None" "upd_species u = None" "upd_quantity u = None"
    "upd_unitPrice u = None" "upd_buyPrice u = None" "upd_sellPrice u = None"
    "upd_location u = None" "upd_notes u = Some n"
  shows "fst (updateStockItem s i u) = Some ((stockItems s ! k)\<lparr>item_notes := Some n\<rparr>)"
    and "snd (updateStockItem s i u)
      = s\<lparr>stockItems := (stockItems s)[k := (stockItems s ! k)\<lparr>item_notes := Some n\<rparr>]\<rparr>"
  using assms
  by (simp_all add: updateStockItem_def mergeItem_def spread_def spread_opt_def Let_def)

text \<open>
  An update that carries a quantity, a buy price or a sell price recomputes the three
  totals: cost and profit by the formulas, revenue from the sell price of the updated
  record when that is not zero, and from its unit price otherwise.
\<close>

lemma update_recomputes:
  assumes "fst (updateStockItem s i u) = Some r"
    and "present (upd_quantity u) \<or> present (upd_buyPrice u) \<or> present (upd_sellPrice u)"
  shows "totalCost r = quantity r * buyPrice r / 1000"
    and "totalProfit r = totalRevenue r - totalCost r"
    and "sellPrice r \<noteq> 0 \<Longrightarrow> totalRevenue r = quantity r * sellPrice r / 1000"
    and "sellPrice r = 0 \<Longrightarrow> totalRevenue r = quantity r * unitPrice r / 1000"
  using assms
  by (auto simp add: updateStockItem_def recalculate_def jsor_def Let_def
      split: option.splits)

text \<open>
  C2 at a sale of 200 g bought at 3 and sold at 6: the update \<^verbatim>\<open>{ sellPrice: 0 }\<close>
  leaves a record with sell price 0, quantity 200 and buy price 3 whose total revenue is
  still 6/5 and whose total profit is still 3/5, where the formulas give 0 and -3/5.
\<close>

theorem update_zero_sell_price_keeps_revenue:
  "map_option sellPrice (fst (updateStockItem soldStore ''item-1'' zeroSellUpdate)) = Some 0
   \<and> map_option quantity (fst (updateStockItem soldStore ''item-1'' zeroSellUpdate)) = Some 200
   \<and> map_option buyPrice (fst (updateStockItem soldStore ''item-1'' zeroSellUpdate)) = Some 3
   \<and> map_option totalRevenue (fst (updateStockItem soldStore ''item-1'' zeroSellUpdate))
       = Some (6 / 5)
   \<and> map_option totalProfit (fst (updateStockItem soldStore ''item-1'' zeroSellUpdate))
       = Some (3 / 5)
   \<and> map Some (stockItems (snd (updateStockItem soldStore ''item-1'' zeroSellUpdate)))
       = [fst (updateStockItem soldStore ''item-1'' zeroSellUpdate)]"
  by (simp add: updateStockItem_def soldStore_def createStockItem_def saleData_def
      zeroSellUpdate_def mergeItem_def recalculate_def jsor_def spread_def spread_opt_def
      Let_def emptyStore_def)

section \<open>Totals of a user\<close>

lemma userRevenue_sum:
  "userRevenue userItems =
     (\<Sum>item\<leftarrow>userItems. if totalRevenue item \<noteq> 0 then totalRevenue item else totalPrice item)"
  unfolding userRevenue_def foldl_plus
  by (simp add: jsor_def [of "totalRevenue _"])

lemma userProfit_sum:
  "userProfit userItems =
     (\<Sum>item\<leftarrow>userItems.
        if totalProfit item \<noteq> 0 then totalProfit item
        else if totalRevenue item \<noteq> 0 then totalRevenue item else totalPrice item)"
  unfolding userProfit_def foldl_plus
  by (simp add: jsor_def [of "totalRevenue _"] jsor_def [of "totalProfit _"])

text \<open>
  The totals of \<^verbatim>\<open>getUserById\<close> run over all records of the user: the revenue is
  the sum of the total revenues (the total price where the total revenue is zero), and the
  profit is the sum of the total profits as long as no record of the user has a total
  profit of zero.
\<close>

lemma getUserById_totals:
  assumes "getUserById s ident = Some u"
  shows "revenue u =
      (\<Sum>item\<leftarrow>filter (\<lambda>item. userId item = ident) (stockItems s).
         if totalRevenue item \<noteq> 0 then totalRevenue item else totalPrice item)"
    and "(\<forall>item\<in>set (stockItems s). userId item = ident \<longrightarrow> totalProfit item \<noteq> 0) \<Longrightarrow>
      profit u = (\<Sum>item\<leftarrow>filter (\<lambda>item. userId item = ident) (stockItems s). totalProfit item)"
proof -
  from assms obtain v where v: "find (\<lambda>u. user_id u = ident) (users s) = Some v"
    and u: "u = withTotals s v"
    by (auto simp add: getUserById_def split: option.splits)
  from v have "user_id v = ident" by (auto simp add: find_Some_iff)
  with u show "revenue u =
      (\<Sum>item\<leftarrow>filter (\<lambda>item. userId item = ident) (stockItems s).
         if totalRevenue item \<noteq> 0 then totalRevenue item else totalPrice item)"
    by (simp add: withTotals_def userRevenue_sum Let_def)
  assume "\<forall>item\<in>set (stockItems s). userId item = ident \<longrightarrow> totalProfit item \<noteq> 0"
  then have "(\<Sum>item\<leftarrow>filter (\<lambda>item. userId item = ident) (stockItems s).
        if totalProfit item \<noteq> 0 then totalProfit item
        else if totalRevenue item \<noteq> 0 then totalRevenue item else totalPrice item)
     = (\<Sum>item\<leftarrow>filter (\<lambda>item. userId item = ident) (stockItems s). totalProfit item)"
    by (intro arg_cong [where f = sum_list] map_cong) auto
  with u \<open>user_id v = ident\<close> show "profit u =
      (\<Sum>item\<leftarrow>filter (\<lambda>item. userId item = ident) (stockItems s). totalProfit item)"
    by (simp add: withTotals_def userProfit_sum Let_def)
qed

text \<open>The yearly profit of a user runs over sales with a buy price only.\<close>

lemma salesOf_proper:
  "item \<in> set (salesOf s uid typeFilter) \<Longrightarrow> 0 < sellPrice item \<and> 0 < buyPrice item"
  by (auto simp add: salesOf_def Let_def split: option.splits)

lemma profit_by_year_drops_costless:
  "getUserProfitByYear (s\<lparr>stockItems := filter (\<lambda>item. buyPrice item \<noteq> 0) (stockItems s)\<rparr>)
       uid typeFilter
     = getUserProfitByYear s uid typeFilter"
proof -
  have "salesOf (s\<lparr>stockItems := filter (\<lambda>item. buyPrice item \<noteq> 0) (stockItems s)\<rparr>)
          uid typeFilter = salesOf s uid typeFilter"
    unfolding salesOf_def Let_def
    by (cases typeFilter) (auto intro!: filter_cong)
  then show ?thesis by (simp add: getUserProfitByYear_def)
qed

text \<open>
  C3 at a user whose only record is a break-even sale (total revenue 5, total cost 5,
  total profit 0): \<^verbatim>\<open>getUserById\<close> reports a profit of 5, the revenue, where the sum
  of the total profits is 0; \<^verbatim>\<open>getUserProfitByYear\<close> reports 0 for the year.
\<close>

theorem break_even_sale_counts_revenue_as_profit:
  "map_option profit (getUserById breakEvenStore ''u1'') = Some 5
   \<and> map_option revenue (getUserById breakEvenStore ''u1'') = Some 5
   \<and> sum_list (map totalProfit
        (filter (\<lambda>item. userId item = ''u1'') (stockItems breakEvenStore))) = 0
   \<and> map_option yr_profit (getUserProfitByYear breakEvenStore ''u1'' None 2024) = Some 0"
  by (simp add: getUserById_def withTotals_def userProfit_def userRevenue_def
      breakEvenStore_def aliceStore_def createUser_def createStockItem_def breakEvenData_def
      getUserProfitByYear_def salesOf_def addItem_def emptyYear_def date2024_def
      jsor_def Let_def emptyStore_def)

section \<open>The market view of the price table\<close>

lemma addPrice_same:
  "addPrice m p (year p) =
     Some \<lparr> yr_revenue = yr_revenue (case m (year p) of None \<Rightarrow> emptyYear | Some v \<Rightarrow> v)
              + price_sellPrice p,
            yr_cost = yr_cost (case m (year p) of None \<Rightarrow> emptyYear | Some v \<Rightarrow> v)
              + price_buyPrice p,
            yr_profit = yr_profit (case m (year p) of None \<Rightarrow> emptyYear | Some v \<Rightarrow> v)
              + (price_sellPrice p - price_buyPrice p),
            itemCount = itemCount (case m (year p) of None \<Rightarrow> emptyYear | Some v \<Rightarrow> v) + 1 \<rparr>"
  by (simp add: addPrice_def Let_def)

lemma addPrice_other: "year p \<noteq> y \<Longrightarrow> addPrice m p y = m y"
  by (simp add: addPrice_def Let_def)

lemma foldl_addPrice:
  "foldl addPrice m ps y =
     (if filter (\<lambda>p. year p = y) ps = [] then m y
      else Some
        \<lparr> yr_revenue = yr_revenue (case m y of None \<Rightarrow> emptyYear | Some v \<Rightarrow> v)
            + (\<Sum>p\<leftarrow>filter (\<lambda>p. year p = y) ps. price_sellPrice p),
          yr_cost = yr_cost (case m y of None \<Rightarrow> emptyYear | Some v \<Rightarrow> v)
            + (\<Sum>p\<leftarrow>filter (\<lambda>p. year p = y) ps. price_buyPrice p),
          yr_profit = yr_profit (case m y of None \<Rightarrow> emptyYear | Some v \<Rightarrow> v)
            + (\<Sum>p\<leftarrow>filter (\<lambda>p. year p = y) ps. price_sellPrice p - price_buyPrice p),
          itemCount = itemCount (case m y of None \<Rightarrow> emptyYear | Some v \<Rightarrow> v)
            + length (filter (\<lambda>p. year p = y) ps) \<rparr>)"
proof (induction ps arbitrary: m)
  case Nil
  show ?case by simp
next
  case (Cons p ps)
  show ?case
  proof (cases "year p = y")
    case True
    have "addPrice m p y = addPrice m p (year p)" using True by simp
    then show ?thesis
      unfolding foldl_Cons Cons.IH addPrice_same
      using True by simp
  next
    case False
    then show ?thesis
      unfolding foldl_Cons Cons.IH
      by (simp add: addPrice_other)
  qed
qed

text \<open>
  C7: \<^verbatim>\<open>getPriceProfitAnalysis\<close> depends on the price table only: two stores with
  the same prices give the same result, and creating, updating or deleting a ledger
  record does not change it.  For a year with no (matching) price entry the result has no
  bucket; otherwise the bucket holds the sum of the sell prices as revenue, the sum of
  the buy prices as cost, the sum of sell price minus buy price as profit and the number
  of entries as item count, over the entries of that year (and of the category, when one
  is given).
\<close>

theorem price_profit_analysis:
  "(prices s1 = prices s2 \<longrightarrow>
      getPriceProfitAnalysis s1 typeFilter = getPriceProfitAnalysis s2 typeFilter)
   \<and> getPriceProfitAnalysis (snd (createStockItem s newId now d)) typeFilter
       = getPriceProfitAnalysis s typeFilter
   \<and> getPriceProfitAnalysis (snd (updateStockItem s i u)) typeFilter
       = getPriceProfitAnalysis s typeFilter
   \<and> getPriceProfitAnalysis (snd (deleteStockItem s i)) typeFilter
       = getPriceProfitAnalysis s typeFilter
   \<and> getPriceProfitAnalysis s typeFilter y =
       (if filter (\<lambda>p. year p = y \<and> (case typeFilter of None \<Rightarrow> True | Some t \<Rightarrow> price_type p = t))
             (prices s) = []
        then None
        else Some
          \<lparr> yr_revenue =
              (\<Sum>p\<leftarrow>filter (\<lambda>p. year p = y \<and> (case typeFilter of None \<Rightarrow> True | Some t \<Rightarrow> price_type p = t))
                     (prices s). price_sellPrice p),
            yr_cost =
              (\<Sum>p\<leftarrow>filter (\<lambda>p. year p = y \<and> (case typeFilter of None \<Rightarrow> True | Some t \<Rightarrow> price_type p = t))
                     (prices s). price_buyPrice p),
            yr_profit =
              (\<Sum>p\<leftarrow>filter (\<lambda>p. year p = y \<and> (case typeFilter of None \<Rightarrow> True | Some t \<Rightarrow> price_type p = t))
                     (prices s). price_sellPrice p - price_buyPrice p),
            itemCount =
              length (filter (\<lambda>p. year p = y \<and> (case typeFilter of None \<Rightarrow> True | Some t \<Rightarrow> price_type p = t))
                     (prices s)) \<rparr>)"
proof -
  have ledger: "prices (snd (createStockItem s newId now d)) = prices s"
    "prices (snd (updateStockItem s i u)) = prices s"
    "prices (snd (deleteStockItem s i)) = prices s"
    by (simp_all add: createStockItem_def updateStockItem_def deleteStockItem_def Let_def
        split: option.splits)
  have indep: "getPriceProfitAnalysis a typeFilter = getPriceProfitAnalysis b typeFilter"
    if "prices a = prices b" for a b
    unfolding getPriceProfitAnalysis_def that ..
  have formula: "getPriceProfitAnalysis s typeFilter y =
       (if filter (\<lambda>p. year p = y \<and> (case typeFilter of None \<Rightarrow> True | Some t \<Rightarrow> price_type p = t))
             (prices s) = []
        then None
        else Some
          \<lparr> yr_revenue =
              (\<Sum>p\<leftarrow>filter (\<lambda>p. year p = y \<and> (case typeFilter of None \<Rightarrow> True | Some t \<Rightarrow> price_type p = t))
                     (prices s). price_sellPrice p),
            yr_cost =
              (\<Sum>p\<leftarrow>filter (\<lambda>p. year p = y \<and> (case typeFilter of None \<Rightarrow> True | Some t \<Rightarrow> price_type p = t))
                     (prices s). price_buyPrice p),
            yr_profit =
              (\<Sum>p\<leftarrow>filter (\<lambda>p. year p = y \<and> (case typeFilter of None \<Rightarrow> True | Some t \<Rightarrow> price_type p = t))
                     (prices s). price_sellPrice p - price_buyPrice p),
            itemCount =
              length (filter (\<lambda>p. year p = y \<and> (case typeFilter of None \<Rightarrow> True | Some t \<Rightarrow> price_type p = t))
                     (prices s)) \<rparr>)"
  proof (cases typeFilter)
    case None
    then show ?thesis
      unfolding getPriceProfitAnalysis_def Let_def foldl_addPrice
      by (simp add: emptyYear_def)
  next
    case (Some t)
    have c: "(\<lambda>p. year p = y \<and> price_type p = t) = (\<lambda>p. price_type p = t \<and> year p = y)"
      by auto
    from Some show ?thesis
      unfolding getPriceProfitAnalysis_def Let_def foldl_addPrice
      by (simp add: emptyYear_def c)
  qed
  from ledger indep formula show ?thesis by blast
qed

theorem price_profit_analysis_witness:
  "prices (snd (createStockItem marketStore ''item-1'' date2024 saleData)) = prices marketStore
   \<and> getPriceProfitAnalysis marketStore None 2024
       = Some \<lparr> yr_revenue = 9, yr_cost = 3, yr_profit = 6, itemCount = 2 \<rparr>
   \<and> getPriceProfitAnalysis (snd (createStockItem marketStore ''item-1'' date2024 saleData))
        None 2024
       = Some \<lparr> yr_revenue = 9, yr_cost = 3, yr_profit = 6, itemCount = 2 \<rparr>
   \<and> getPriceProfitAnalysis marketStore None 2023 = None"
proof -
  have p: "prices marketStore =
     [\<lparr> price_id = ''price-1'', price_type = berry, price_species = ''blueberry'',
        year = 2024, price_buyPrice = 2, price_sellPrice = 5, updatedAt = date2024 \<rparr>,
      \<lparr> price_id = ''price-2'', price_type = mushroom, price_species = ''chanterelle'',
        year = 2024, price_buyPrice = 1, price_sellPrice = 4, updatedAt = date2024 \<rparr>]"
    by (simp add: marketStore_def createPrice_def sameTriple_def marketData1_def
        marketData2_def emptyStore_def Let_def)
  have q: "prices (snd (createStockItem marketStore ''item-1'' date2024 saleData))
      = prices marketStore"
    by (simp add: createStockItem_def Let_def)
  from price_profit_analysis [where ?s1.0 = "snd (createStockItem marketStore ''item-1'' date2024 saleData)"
      and ?s2.0 = marketStore and typeFilter = None and s = marketStore
      and newId = "''item-1''" and now = date2024 and d = saleData and i = "''item-1''"
      and u = notesUpdate and y = 2024]
    price_profit_analysis [where ?s1.0 = "snd (createStockItem marketStore ''item-1'' date2024 saleData)"
      and ?s2.0 = marketStore and typeFilter = None and s = marketStore
      and newId = "''item-1''" and now = date2024 and d = saleData and i = "''item-1''"
      and u = notesUpdate and y = 2023]
    q
  show ?thesis by (simp add: p)
qed

section \<open>The integrity audit\<close>

lemma auditItem_step:
  "auditItem r item =
     \<lparr> inconsistentItems = inconsistentItems r
         @ (if miscategorized item \<or> miscalculated item then [item] else []),
       warnings = warnings r
         @ (if miscategorized item then [NoBuyPrice (item_id item) (sellPrice item)]
            else if miscalculated item then [ValuesDontMatch (item_id item)] else []) \<rparr>"
proof -
  have "\<not> (miscategorized item \<and> miscalculated item)"
    by (auto simp add: miscategorized_def miscalculated_def)
  then show ?thesis
    by (auto simp add: auditItem_def Let_def)
qed

lemma foldl_auditItem:
  "foldl auditItem r items =
     \<lparr> inconsistentItems = inconsistentItems r
         @ filter (\<lambda>item. miscategorized item \<or> miscalculated item) items,
       warnings = warnings r
         @ map (\<lambda>item. if miscategorized item then NoBuyPrice (item_id item) (sellPrice item)
                        else ValuesDontMatch (item_id item))
             (filter (\<lambda>item. miscategorized item \<or> miscalculated item) items) \<rparr>"
proof (induction items arbitrary: r)
  case Nil
  show ?case by simp
next
  case (Cons item items)
  have "foldl auditItem r (item # items) = foldl auditItem (auditItem r item) items"
    by simp
  also have "\<dots> =
     \<lparr> inconsistentItems = inconsistentItems (auditItem r item)
         @ filter (\<lambda>item. miscategorized item \<or> miscalculated item) items,
       warnings = warnings (auditItem r item)
         @ map (\<lambda>item. if miscategorized item then NoBuyPrice (item_id item) (sellPrice item)
                        else ValuesDontMatch (item_id item))
             (filter (\<lambda>item. miscategorized item \<or> miscalculated item) items) \<rparr>"
    by (rule Cons.IH)
  also have "\<dots> =
     \<lparr> inconsistentItems = inconsistentItems r
         @ filter (\<lambda>item. miscategorized item \<or> miscalculated item) (item # items),
       warnings = warnings r
         @ map (\<lambda>item. if miscategorized item then NoBuyPrice (item_id item) (sellPrice item)
                        else ValuesDontMatch (item_id item))
             (filter (\<lambda>item. miscategorized item \<or> miscalculated item) (item # items)) \<rparr>"
    by (simp add: auditItem_step)
  finally show ?case .
qed

text \<open>
  C8: the records the audit reports are, in ledger order, exactly those with a sell price
  above zero and a buy price of zero, and those with both prices above zero one of whose
  stored totals is more than 0.01 away from the value recomputed from quantity and
  prices; each reported record has one warning, of the first kind for a record without
  buy price and of the second kind otherwise; the store is left as it was.
\<close>

theorem audit_flags:
  "inconsistentItems (fst (validateDataIntegrity s)) =
     filter (\<lambda>item.
        (0 < sellPrice item \<and> buyPrice item = 0) \<or>
        (0 < sellPrice item \<and> 0 < buyPrice item \<and>
           (\<bar>totalRevenue item - quantity item * sellPrice item / 1000\<bar> > 0.01 \<or>
            \<bar>totalCost item - quantity item * buyPrice item / 1000\<bar> > 0.01 \<or>
            \<bar>totalProfit item
               - (quantity item * sellPrice item / 1000 - quantity item * buyPrice item / 1000)\<bar>
              > 0.01)))
       (stockItems s)
   \<and> warnings (fst (validateDataIntegrity s)) =
       map (\<lambda>item. if buyPrice item = 0 then NoBuyPrice (item_id item) (sellPrice item)
                    else ValuesDontMatch (item_id item))
         (inconsistentItems (fst (validateDataIntegrity s)))
   \<and> snd (validateDataIntegrity s) = s"
proof -
  have flagged: "(\<lambda>item. miscategorized item \<or> miscalculated item) =
     (\<lambda>item.
        (0 < sellPrice item \<and> buyPrice item = 0) \<or>
        (0 < sellPrice item \<and> 0 < buyPrice item \<and>
           (\<bar>totalRevenue item - quantity item * sellPrice item / 1000\<bar> > 0.01 \<or>
            \<bar>totalCost item - quantity item * buyPrice item / 1000\<bar> > 0.01 \<or>
            \<bar>totalProfit item
               - (quantity item * sellPrice item / 1000 - quantity item * buyPrice item / 1000)\<bar>
              > 0.01)))"
    by (simp add: miscategorized_def miscalculated_def Let_def)
  have w: "map (\<lambda>item. if miscategorized item then NoBuyPrice (item_id item) (sellPrice item)
                        else ValuesDontMatch (item_id item))
             (filter (\<lambda>item. miscategorized item \<or> miscalculated item) (stockItems s))
     = map (\<lambda>item. if buyPrice item = 0 then NoBuyPrice (item_id item) (sellPrice item)
                    else ValuesDontMatch (item_id item))
         (filter (\<lambda>item. miscategorized item \<or> miscalculated item) (stockItems s))"
    by (rule map_cong) (auto simp add: miscategorized_def miscalculated_def)
  show ?thesis
    unfolding validateDataIntegrity_def foldl_auditItem
    by (simp add: w) (simp add: flagged)
qed

theorem audit_flags_witness:
  "inconsistentItems (fst (validateDataIntegrity auditStore)) = [legacyItem, tamperedItem]
   \<and> warnings (fst (validateDataIntegrity auditStore))
       = [NoBuyPrice ''item-1'' 5, ValuesDontMatch ''item-2'']
   \<and> snd (validateDataIntegrity auditStore) = auditStore"
proof -
  have items: "stockItems auditStore = [legacyItem, tamperedItem, consistentItem]"
    by (simp add: auditStore_def)
  have f: "sellPrice legacyItem = 5" "buyPrice legacyItem = 0" "item_id legacyItem = ''item-1''"
    "sellPrice tamperedItem = 6" "buyPrice tamperedItem = 3" "quantity tamperedItem = 200"
    "totalRevenue tamperedItem = 6 / 5" "totalCost tamperedItem = 3 / 5"
    "totalProfit tamperedItem = 10" "item_id tamperedItem = ''item-2''"
    "sellPrice consistentItem = 6" "buyPrice consistentItem = 3" "quantity consistentItem = 200"
    "totalRevenue consistentItem = 6 / 5" "totalCost consistentItem = 3 / 5"
    "totalProfit consistentItem = 3 / 5"
    by (simp_all add: legacyItem_def tamperedItem_def consistentItem_def createStockItem_def
        saleData_def Let_def)
  from audit_flags [of auditStore] show ?thesis
    by (simp add: items f)
qed

section \<open>The price table holds one entry per triple\<close>

lemma sameTriple_triple:
  "sameTriple pd p \<longleftrightarrow> triple p = (pd_type pd, pd_species pd, pd_year pd)"
  by (auto simp add: sameTriple_def triple_def)

lemma createPrice_existing:
  assumes "findIndex (sameTriple pd) (prices s) = Some k"
  shows "createPrice s newId now pd =
     ((prices s ! k)\<lparr> price_buyPrice := pd_buyPrice pd, price_sellPrice := pd_sellPrice pd,
                       updatedAt := now \<rparr>,
      s\<lparr>prices := (prices s)[k := (prices s ! k)
           \<lparr> price_buyPrice := pd_buyPrice pd, price_sellPrice := pd_sellPrice pd,
             updatedAt := now \<rparr>]\<rparr>)"
proof -
  from findIndex_Some [OF assms] have "sameTriple pd (prices s ! k)" by simp
  then have "(prices s ! k)
      \<lparr> price_type := pd_type pd, price_species := pd_species pd, year := pd_year pd,
        price_buyPrice := pd_buyPrice pd, price_sellPrice := pd_sellPrice pd,
        updatedAt := now \<rparr>
    = (prices s ! k)\<lparr> price_buyPrice := pd_buyPrice pd, price_sellPrice := pd_sellPrice pd,
        updatedAt := now \<rparr>"
    by (simp add: sameTriple_def)
  with assms show ?thesis
    by (simp add: createPrice_def Let_def)
qed

lemma map_update_same_key:
  assumes "k < length xs" and "f q = f (xs ! k)"
  shows "map f (xs[k := q]) = map f xs"
proof -
  have "map f (xs[k := q]) = (map f xs)[k := map f xs ! k]"
    using assms by (simp add: map_update)
  then show ?thesis by simp
qed

lemma distinct_createPrice:
  assumes "distinct (map triple (prices s))"
  shows "distinct (map triple (prices (snd (createPrice s newId now pd))))"
proof (cases "findIndex (sameTriple pd) (prices s)")
  case None
  then have "\<forall>p\<in>set (prices s). triple p \<noteq> (pd_type pd, pd_species pd, pd_year pd)"
    by (simp add: findIndex_None sameTriple_triple)
  then have "(pd_type pd, pd_species pd, pd_year pd) \<notin> triple ` set (prices s)"
    by force
  with assms None show ?thesis
    by (simp add: createPrice_def Let_def triple_def)
next
  case (Some k)
  from findIndex_Some [OF Some] have k: "k < length (prices s)" by simp
  have "map triple ((prices s)[k := (prices s ! k)
           \<lparr> price_buyPrice := pd_buyPrice pd, price_sellPrice := pd_sellPrice pd,
             updatedAt := now \<rparr>]) = map triple (prices s)"
    using k by (rule map_update_same_key) (simp add: triple_def)
  with assms show ?thesis
    by (simp add: createPrice_existing [OF Some])
qed

lemma distinct_updatePrice:
  assumes "distinct (map triple (prices s))"
  shows "distinct (map triple (prices (snd (updatePrice s ident now u))))"
proof (cases "findIndex (\<lambda>p. price_id p = ident) (prices s)")
  case None
  with assms show ?thesis by (simp add: updatePrice_def)
next
  case (Some k)
  from findIndex_Some [OF Some] have k: "k < length (prices s)" by simp
  have "map triple ((prices s)[k := (prices s ! k)
           \<lparr> price_buyPrice := spread (price_buyPrice (prices s ! k)) (pu_buyPrice u),
             price_sellPrice := spread (price_sellPrice (prices s ! k)) (pu_sellPrice u),
             updatedAt := now \<rparr>]) = map triple (prices s)"
    using k by (rule map_update_same_key) (simp add: triple_def)
  with assms Some show ?thesis
    by (simp add: updatePrice_def Let_def)
qed

lemma distinct_deletePrice:
  assumes "distinct (map triple (prices s))"
  shows "distinct (map triple (prices (snd (deletePrice s ident))))"
proof (cases "findIndex (\<lambda>p. price_id p = ident) (prices s)")
  case None
  with assms show ?thesis by (simp add: deletePrice_def)
next
  case (Some k)
  from splice1_first [OF Some] obtain ys y zs
    where "prices s = ys @ y # zs" "splice1 k (prices s) = ys @ zs"
    by blast
  with assms have "distinct (map triple (splice1 k (prices s)))" by auto
  with Some show ?thesis by (simp add: deletePrice_def)
qed

lemma reachable_distinct: "priceReachable s \<Longrightarrow> distinct (map triple (prices s))"
proof (induction rule: priceReachable.induct)
  case (start s)
  then show ?case by simp
next
  case (upsert s newId now pd)
  from upsert.IH show ?case by (rule distinct_createPrice)
next
  case (update s ident now u)
  from update.IH show ?case by (rule distinct_updatePrice)
next
  case (delete s ident)
  from delete.IH show ?case by (rule distinct_deletePrice)
qed

text \<open>
  C5: in every store reached by upserts, updates by id and deletions from an empty price
  table, no two entries share their (category, species, year) triple, and an upsert keeps
  it so.  An upsert of a triple that is in the table replaces the first (hence only)
  entry of that triple in place: the id and the triple stay, buy price, sell price and
  timestamp are the new ones, and the table keeps its length.
\<close>

theorem one_price_per_triple:
  assumes "priceReachable s"
  shows "distinct (map triple (prices s))
   \<and> distinct (map triple (prices (snd (createPrice s newId now pd))))
   \<and> ((\<exists>p\<in>set (prices s). triple p = (pd_type pd, pd_species pd, pd_year pd)) \<longrightarrow>
        (\<exists>k<length (prices s).
            triple (prices s ! k) = (pd_type pd, pd_species pd, pd_year pd)
          \<and> prices (snd (createPrice s newId now pd))
              = (prices s)[k := fst (createPrice s newId now pd)]
          \<and> price_id (fst (createPrice s newId now pd)) = price_id (prices s ! k)
          \<and> triple (fst (createPrice s newId now pd)) = triple (prices s ! k)
          \<and> price_buyPrice (fst (createPrice s newId now pd)) = pd_buyPrice pd
          \<and> price_sellPrice (fst (createPrice s newId now pd)) = pd_sellPrice pd
          \<and> updatedAt (fst (createPrice s newId now pd)) = now)
        \<and> length (prices (snd (createPrice s newId now pd))) = length (prices s))"
proof (intro conjI impI)
  have d: "distinct (map triple (prices s))"
    using assms by (rule reachable_distinct)
  show "distinct (map triple (prices s))"
    by (fact d)
  show "distinct (map triple (prices (snd (createPrice s newId now pd))))"
    by (rule distinct_createPrice [OF d])
next
  assume "\<exists>p\<in>set (prices s). triple p = (pd_type pd, pd_species pd, pd_year pd)"
  then have "findIndex (sameTriple pd) (prices s) \<noteq> None"
    by (simp add: findIndex_None sameTriple_triple)
  then obtain k where k: "findIndex (sameTriple pd) (prices s) = Some k" by blast
  from findIndex_Some [OF k] have "k < length (prices s)" "sameTriple pd (prices s ! k)"
    by simp_all
  then show "\<exists>k<length (prices s).
            triple (prices s ! k) = (pd_type pd, pd_species pd, pd_year pd)
          \<and> prices (snd (createPrice s newId now pd))
              = (prices s)[k := fst (createPrice s newId now pd)]
          \<and> price_id (fst (createPrice s newId now pd)) = price_id (prices s ! k)
          \<and> triple (fst (createPrice s newId now pd)) = triple (prices s ! k)
          \<and> price_buyPrice (fst (createPrice s newId now pd)) = pd_buyPrice pd
          \<and> price_sellPrice (fst (createPrice s newId now pd)) = pd_sellPrice pd
          \<and> updatedAt (fst (createPrice s newId now pd)) = now"
    by (intro exI [of _ k]) (simp add: createPrice_existing [OF k] sameTriple_triple, simp add: triple_def)
  from k show "length (prices (snd (createPrice s newId now pd))) = length (prices s)"
    by (simp add: createPrice_existing [OF k])
qed

lemma prices_marketStore:
  "prices marketStore =
     [\<lparr> price_id = ''price-1'', price_type = berry, price_species = ''blueberry'',
        year = 2024, price_buyPrice = 2, price_sellPrice = 5, updatedAt = date2024 \<rparr>,
      \<lparr> price_id = ''price-2'', price_type = mushroom, price_species = ''chanterelle'',
        year = 2024, price_buyPrice = 1, price_sellPrice = 4, updatedAt = date2024 \<rparr>]"
  by (simp add: marketStore_def createPrice_def sameTriple_def marketData1_def
      marketData2_def emptyStore_def Let_def)

lemma prices_historyStore:
  "prices historyStore =
     [\<lparr> price_id = ''price-1'', price_type = berry, price_species = ''blueberry'',
        year = 2024, price_buyPrice = 2, price_sellPrice = 5, updatedAt = date2024 \<rparr>,
      \<lparr> price_id = ''price-2'', price_type = mushroom, price_species = ''chanterelle'',
        year = 2024, price_buyPrice = 1, price_sellPrice = 4, updatedAt = date2024 \<rparr>,
      \<lparr> price_id = ''price-3'', price_type = berry, price_species = ''blueberry'',
        year = 2022, price_buyPrice = 1, price_sellPrice = 3, updatedAt = date2024 \<rparr>]"
  by (simp add: historyStore_def createPrice_def sameTriple_def olderData_def
      prices_marketStore Let_def)

theorem one_price_per_triple_witness:
  "priceReachable marketStore
   \<and> distinct (map triple (prices marketStore))
   \<and> prices (snd (createPrice marketStore ''price-3'' date2025 repricedData)) =
     [\<lparr> price_id = ''price-1'', price_type = berry, price_species = ''blueberry'',
        year = 2024, price_buyPrice = 3, price_sellPrice = 7, updatedAt = date2025 \<rparr>,
      \<lparr> price_id = ''price-2'', price_type = mushroom, price_species = ''chanterelle'',
        year = 2024, price_buyPrice = 1, price_sellPrice = 4, updatedAt = date2024 \<rparr>]
   \<and> distinct (map triple (prices (snd (createPrice marketStore ''price-3'' date2025 repricedData))))"
proof -
  have r: "priceReachable marketStore"
    unfolding marketStore_def
    by (intro priceReachable.upsert priceReachable.start) (simp add: emptyStore_def)
  have c: "prices (snd (createPrice marketStore ''price-3'' date2025 repricedData)) =
     [\<lparr> price_id = ''price-1'', price_type = berry, price_species = ''blueberry'',
        year = 2024, price_buyPrice = 3, price_sellPrice = 7, updatedAt = date2025 \<rparr>,
      \<lparr> price_id = ''price-2'', price_type = mushroom, price_species = ''chanterelle'',
        year = 2024, price_buyPrice = 1, price_sellPrice = 4, updatedAt = date2024 \<rparr>]"
    by (simp add: createPrice_def sameTriple_def repricedData_def prices_marketStore Let_def)
  from one_price_per_triple [OF r, of "''price-3''" date2025 repricedData] r c
  show ?thesis by simp
qed

section \<open>The current price\<close>

lemma sort_key_head:
  assumes "sort_key f xs = p # rest"
  shows "p \<in> set xs \<and> (\<forall>q\<in>set xs. f p \<le> f q)"
proof -
  have "set (sort_key f xs) = set xs" by simp
  with assms have s: "set xs = insert p (set rest)" by simp
  have "sorted (map f (sort_key f xs))" by (rule sorted_sort_key)
  with assms have "\<forall>q\<in>set rest. f p \<le> f q" by simp
  with s show ?thesis by simp
qed

text \<open>
  C6: when the table has an entry of the category and species for the current year,
  \<^verbatim>\<open>getCurrentPrice\<close> returns such an entry.  When it has none for the current year
  but some for the category and species, it returns one of those whose year is the
  highest among them, strictly higher than that of every other one when no two entries
  share a triple, as in every store the operations of the price table reach.  It returns nothing exactly when no entry has the category and species.
\<close>

theorem current_price:
  "((\<exists>p\<in>set (prices s). price_type p = t \<and> price_species p = sp \<and> year p = getFullYear now) \<longrightarrow>
      (\<exists>p\<in>set (prices s). getCurrentPrice s now t sp = Some p
          \<and> price_type p = t \<and> price_species p = sp \<and> year p = getFullYear now))
   \<and> (\<not> (\<exists>p\<in>set (prices s). price_type p = t \<and> price_species p = sp \<and> year p = getFullYear now)
       \<and> (\<exists>p\<in>set (prices s). price_type p = t \<and> price_species p = sp) \<longrightarrow>
      (\<exists>p\<in>set (prices s). getCurrentPrice s now t sp = Some p
          \<and> price_type p = t \<and> price_species p = sp
          \<and> (\<forall>q\<in>set (prices s). price_type q = t \<and> price_species q = sp \<longrightarrow> year q \<le> year p)
          \<and> (distinct (map triple (prices s)) \<or> priceReachable s \<longrightarrow>
               (\<forall>q\<in>set (prices s). price_type q = t \<and> price_species q = sp \<and> q \<noteq> p
                   \<longrightarrow> year q < year p))))
   \<and> (getCurrentPrice s now t sp = None
        \<longleftrightarrow> \<not> (\<exists>p\<in>set (prices s). price_type p = t \<and> price_species p = sp))"
proof (cases "find (\<lambda>p. price_type p = t \<and> price_species p = sp \<and> year p = getFullYear now)
                (prices s)")
  case (Some p)
  then have g: "getCurrentPrice s now t sp = Some p"
    by (simp add: getCurrentPrice_def Let_def)
  from Some have p: "p \<in> set (prices s)" "price_type p = t" "price_species p = sp"
    "year p = getFullYear now"
    by (auto simp add: find_Some_iff)
  from g p show ?thesis by auto
next
  case None
  then have nocur: "\<not> (\<exists>p\<in>set (prices s). price_type p = t \<and> price_species p = sp
      \<and> year p = getFullYear now)"
    by (auto simp add: find_None_iff)
  show ?thesis
  proof (cases "sort_key (\<lambda>p. - year p)
      (filter (\<lambda>p. price_type p = t \<and> price_species p = sp) (prices s))")
    case Nil
    then have "length (filter (\<lambda>p. price_type p = t \<and> price_species p = sp) (prices s)) = 0"
      by (metis length_sort list.size(3))
    then have nomatch: "\<not> (\<exists>p\<in>set (prices s). price_type p = t \<and> price_species p = sp)"
      by (auto simp add: filter_empty_conv)
    from None Nil have "getCurrentPrice s now t sp = None"
      by (simp add: getCurrentPrice_def Let_def)
    with nomatch show ?thesis by blast
  next
    case (Cons p rest)
    from sort_key_head [OF Cons]
    have p: "p \<in> set (prices s)" "price_type p = t" "price_species p = sp"
      and top: "\<forall>q\<in>set (prices s). price_type q = t \<and> price_species q = sp \<longrightarrow> year q \<le> year p"
      by auto
    from None Cons have g: "getCurrentPrice s now t sp = Some p"
      by (simp add: getCurrentPrice_def Let_def)
    have strict: "\<forall>q\<in>set (prices s). price_type q = t \<and> price_species q = sp \<and> q \<noteq> p
                   \<longrightarrow> year q < year p"
      if dr: "distinct (map triple (prices s)) \<or> priceReachable s"
    proof (intro ballI impI)
      from dr have d: "distinct (map triple (prices s))"
        using reachable_distinct by blast
      fix q assume q: "q \<in> set (prices s)"
        and m: "price_type q = t \<and> price_species q = sp \<and> q \<noteq> p"
      from d have "inj_on triple (set (prices s))" by (simp add: distinct_map)
      with q p(1) m have "triple q \<noteq> triple p" by (auto dest: inj_onD)
      with m p have "year q \<noteq> year p" by (simp add: triple_def)
      moreover from top q m have "year q \<le> year p" by simp
      ultimately show "year q < year p" by simp
    qed
    from g p top strict nocur show ?thesis by auto
  qed
qed

theorem current_price_witness:
  "(\<exists>p\<in>set (prices historyStore). price_type p = berry \<and> price_species p = ''blueberry''
       \<and> year p = getFullYear date2024)
   \<and> getCurrentPrice historyStore date2024 berry ''blueberry'' =
     Some \<lparr> price_id = ''price-1'', price_type = berry, price_species = ''blueberry'',
        year = 2024, price_buyPrice = 2, price_sellPrice = 5, updatedAt = date2024 \<rparr>
   \<and> \<not> (\<exists>p\<in>set (prices historyStore). price_type p = berry \<and> price_species p = ''blueberry''
       \<and> year p = getFullYear date2025)
   \<and> (\<exists>p\<in>set (prices historyStore). price_type p = berry \<and> price_species p = ''blueberry'')
   \<and> getCurrentPrice historyStore date2025 berry ''blueberry'' =
     Some \<lparr> price_id = ''price-1'', price_type = berry, price_species = ''blueberry'',
        year = 2024, price_buyPrice = 2, price_sellPrice = 5, updatedAt = date2024 \<rparr>
   \<and> getCurrentPrice historyStore date2025 berry ''lingonberry'' = None
   \<and> distinct (map triple (prices historyStore))"
proof -
  have d: "distinct (map triple (prices historyStore))"
    by (simp add: prices_historyStore triple_def)
  have e: "getCurrentPrice historyStore date2024 berry ''blueberry'' =
     Some \<lparr> price_id = ''price-1'', price_type = berry, price_species = ''blueberry'',
        year = 2024, price_buyPrice = 2, price_sellPrice = 5, updatedAt = date2024 \<rparr>"
    "getCurrentPrice historyStore date2025 berry ''blueberry'' =
     Some \<lparr> price_id = ''price-1'', price_type = berry, price_species = ''blueberry'',
        year = 2024, price_buyPrice = 2, price_sellPrice = 5, updatedAt = date2024 \<rparr>"
    by (simp_all add: getCurrentPrice_def prices_historyStore date2024_def date2025_def Let_def)
  have h: "\<exists>p\<in>set (prices historyStore). price_type p = berry \<and> price_species p = ''blueberry''
       \<and> year p = getFullYear date2024"
    "\<not> (\<exists>p\<in>set (prices historyStore). price_type p = berry \<and> price_species p = ''blueberry''
       \<and> year p = getFullYear date2025)"
    "\<exists>p\<in>set (prices historyStore). price_type p = berry \<and> price_species p = ''blueberry''"
    by (simp_all add: prices_historyStore date2024_def date2025_def)
  from current_price [of historyStore berry "''lingonberry''" date2025]
  have n: "getCurrentPrice historyStore date2025 berry ''lingonberry'' = None"
    by (simp add: prices_historyStore)
  from current_price [of historyStore berry "''blueberry''" date2024] h(1)
  have "\<exists>p\<in>set (prices historyStore). getCurrentPrice historyStore date2024 berry ''blueberry'' = Some p
      \<and> year p = getFullYear date2024"
    by blast
  moreover
  from current_price [of historyStore berry "''blueberry''" date2025] h(2,3)
  have "\<exists>p\<in>set (prices historyStore). getCurrentPrice historyStore date2025 berry ''blueberry'' = Some p
      \<and> (\<forall>q\<in>set (prices historyStore). price_type q = berry \<and> price_species q = ''blueberry''
            \<longrightarrow> year q \<le> year p)"
    by blast
  ultimately show ?thesis using e h n d by blast
qed

section \<open>Available inventory\<close>

text \<open>
  The key of the grouping map determines category and species: the category names hold no
  colon and differ before it.
\<close>

lemma categoryName_key_inj:
  "categoryName a @ '':'' @ x = categoryName b @ '':'' @ y \<longleftrightarrow> a = b \<and> x = y"
  by (cases a; cases b) simp_all

lemma inventoryKey_eq:
  "inventoryKey i = inventoryKey j \<longleftrightarrow> item_type i = item_type j \<and> species i = species j"
  using categoryName_key_inj [of "item_type i" "species i" "item_type j" "species j"]
  by (simp add: inventoryKey_def)

lemma map_of_countItem:
  "map_of (countItem m item) k =
     (if k = inventoryKey item
      then Some ((case map_of m k of
                    None \<Rightarrow> \<lparr> inv_type = item_type item, inv_species = species item,
                              totalPurchased = 0, totalSold = 0 \<rparr>
                  | Some v \<Rightarrow> v)
                 \<lparr> totalPurchased :=
                     totalPurchased (case map_of m k of
                        None \<Rightarrow> \<lparr> inv_type = item_type item, inv_species = species item,
                                  totalPurchased = 0, totalSold = 0 \<rparr>
                      | Some v \<Rightarrow> v)
                     + (if 0 < buyPrice item \<and> sellPrice item = 0 then quantity item else 0),
                   totalSold :=
                     totalSold (case map_of m k of
                        None \<Rightarrow> \<lparr> inv_type = item_type item, inv_species = species item,
                                  totalPurchased = 0, totalSold = 0 \<rparr>
                      | Some v \<Rightarrow> v)
                     + (if 0 < sellPrice item then quantity item else 0) \<rparr>)
      else map_of m k)"
  by (cases "map_of m (inventoryKey item)")
    (auto simp add: countItem_def Let_def update_conv')

lemma keys_countItem:
  "map fst (countItem m item) =
     (if inventoryKey item \<in> set (map fst m) then map fst m
      else map fst m @ [inventoryKey item])"
  by (cases "map_of m (inventoryKey item)")
    (auto simp add: countItem_def Let_def update_keys update_conv' map_of_eq_None_iff
      dest: map_of_SomeD intro: rev_image_eqI)


lemma map_of_foldl_countItem_Some:
  assumes "map_of m k = Some v"
  shows "map_of (foldl countItem m items) k =
     Some (v\<lparr> totalPurchased := totalPurchased v
                 + (\<Sum>item\<leftarrow>filter (\<lambda>item. inventoryKey item = k) items.
                      if 0 < buyPrice item \<and> sellPrice item = 0 then quantity item else 0),
               totalSold := totalSold v
                 + (\<Sum>item\<leftarrow>filter (\<lambda>item. inventoryKey item = k) items.
                      if 0 < sellPrice item then quantity item else 0) \<rparr>)"
  using assms
proof (induction items arbitrary: m v)
  case Nil
  then show ?case by simp
next
  case (Cons item items)
  show ?case
  proof (cases "inventoryKey item = k")
    case True
    with Cons.prems have "map_of (countItem m item) k =
        Some (v\<lparr> totalPurchased := totalPurchased v
                 + (if 0 < buyPrice item \<and> sellPrice item = 0 then quantity item else 0),
               totalSold := totalSold v
                 + (if 0 < sellPrice item then quantity item else 0) \<rparr>)"
      by (simp add: map_of_countItem)
    from Cons.IH [OF this] True show ?thesis
      by (simp add: add.assoc)
  next
    case False
    with Cons.prems have "map_of (countItem m item) k = Some v"
      by (auto simp add: map_of_countItem)
    from Cons.IH [OF this] False show ?thesis
      by simp
  qed
qed

lemma map_of_foldl_countItem_None:
  assumes "map_of m k = None"
  shows "map_of (foldl countItem m items) k =
     (case filter (\<lambda>item. inventoryKey item = k) items of
        [] \<Rightarrow> None
      | first # _ \<Rightarrow>
          Some \<lparr> inv_type = item_type first, inv_species = species first,
                 totalPurchased =
                   (\<Sum>item\<leftarrow>filter (\<lambda>item. inventoryKey item = k) items.
                      if 0 < buyPrice item \<and> sellPrice item = 0 then quantity item else 0),
                 totalSold =
                   (\<Sum>item\<leftarrow>filter (\<lambda>item. inventoryKey item = k) items.
                      if 0 < sellPrice item then quantity item else 0) \<rparr>)"
  using assms
proof (induction items arbitrary: m)
  case Nil
  then show ?case by simp
next
  case (Cons item items)
  show ?case
  proof (cases "inventoryKey item = k")
    case True
    with Cons.prems have "map_of (countItem m item) k =
        Some \<lparr> inv_type = item_type item, inv_species = species item,
               totalPurchased =
                 (if 0 < buyPrice item \<and> sellPrice item = 0 then quantity item else 0),
               totalSold = (if 0 < sellPrice item then quantity item else 0) \<rparr>"
      by (simp add: map_of_countItem)
    from map_of_foldl_countItem_Some [OF this, of items] True show ?thesis
      by simp
  next
    case False
    with Cons.prems have "map_of (countItem m item) k = None"
      by (auto simp add: map_of_countItem)
    moreover from False
    have "filter (\<lambda>item. inventoryKey item = k) (item # items)
        = filter (\<lambda>item. inventoryKey item = k) items"
      by simp
    ultimately show ?thesis
      using Cons.IH [of "countItem m item"] by (simp only: foldl_Cons)
  qed
qed

lemma keys_foldl_countItem:
  "set (map fst (foldl countItem m items)) = set (map fst m) \<union> inventoryKey ` set items"
  "distinct (map fst m) \<Longrightarrow> distinct (map fst (foldl countItem m items))"
proof (induction items arbitrary: m)
  case Nil
  {
    case 1
    show ?case by simp
  next
    case 2
    then show ?case by simp
  }
next
  case (Cons item items)
  {
    case 1
    have "set (map fst (foldl countItem (countItem m item) items))
        = set (map fst (countItem m item)) \<union> inventoryKey ` set items"
      by (rule Cons.IH(1))
    then show ?case
      by (auto simp add: keys_countItem split: if_splits)
  next
    case 2
    then have "distinct (map fst (countItem m item))"
      by (simp add: keys_countItem)
    then have "distinct (map fst (foldl countItem (countItem m item) items))"
      by (rule Cons.IH(2))
    then show ?case by simp
  }
qed


lemma sum_list_if_filter:
  "(\<Sum>x\<leftarrow>filter P xs. if Q x then f x else (0::real)) = (\<Sum>x\<leftarrow>filter (\<lambda>x. P x \<and> Q x) xs. f x)"
  by (induction xs) simp_all

lemma inventory_rows:
  assumes "(k, v) \<in> set (foldl countItem [] items)"
  shows "\<exists>first\<in>set items. inventoryKey first = k
      \<and> inv_type v = item_type first \<and> inv_species v = species first
      \<and> totalPurchased v =
          (\<Sum>item\<leftarrow>filter (\<lambda>item. (item_type item = inv_type v \<and> species item = inv_species v)
                          \<and> (0 < buyPrice item \<and> sellPrice item = 0)) items. quantity item)
      \<and> totalSold v =
          (\<Sum>item\<leftarrow>filter (\<lambda>item. (item_type item = inv_type v \<and> species item = inv_species v)
                          \<and> 0 < sellPrice item) items. quantity item)"
proof -
  have "distinct (map fst (foldl countItem [] items))"
    by (rule keys_foldl_countItem(2)) simp
  with assms have "map_of (foldl countItem [] items) k = Some v"
    by simp
  then have c: "(case filter (\<lambda>item. inventoryKey item = k) items of
        [] \<Rightarrow> None
      | first # _ \<Rightarrow>
          Some \<lparr> inv_type = item_type first, inv_species = species first,
                 totalPurchased =
                   (\<Sum>item\<leftarrow>filter (\<lambda>item. inventoryKey item = k) items.
                      if 0 < buyPrice item \<and> sellPrice item = 0 then quantity item else 0),
                 totalSold =
                   (\<Sum>item\<leftarrow>filter (\<lambda>item. inventoryKey item = k) items.
                      if 0 < sellPrice item then quantity item else 0) \<rparr>) = Some v"
    using map_of_foldl_countItem_None [of "[]" k items] by simp
  then obtain first rest where fr: "filter (\<lambda>item. inventoryKey item = k) items = first # rest"
    by (cases "filter (\<lambda>item. inventoryKey item = k) items") simp_all
  then have "first \<in> set (filter (\<lambda>item. inventoryKey item = k) items)" by simp
  then have first: "first \<in> set items" "inventoryKey first = k" by simp_all
  from c fr have v: "v = \<lparr> inv_type = item_type first, inv_species = species first,
                 totalPurchased =
                   (\<Sum>item\<leftarrow>filter (\<lambda>item. inventoryKey item = k) items.
                      if 0 < buyPrice item \<and> sellPrice item = 0 then quantity item else 0),
                 totalSold =
                   (\<Sum>item\<leftarrow>filter (\<lambda>item. inventoryKey item = k) items.
                      if 0 < sellPrice item then quantity item else 0) \<rparr>"
    by simp
  have same: "(\<lambda>item. inventoryKey item = k)
      = (\<lambda>item. item_type item = item_type first \<and> species item = species first)"
    using first(2) inventoryKey_eq by auto
  from v have "inv_type v = item_type first" "inv_species v = species first"
    "totalPurchased v =
       (\<Sum>item\<leftarrow>filter (\<lambda>item. (item_type item = item_type first \<and> species item = species first)
                          \<and> (0 < buyPrice item \<and> sellPrice item = 0)) items. quantity item)"
    "totalSold v =
       (\<Sum>item\<leftarrow>filter (\<lambda>item. (item_type item = item_type first \<and> species item = species first)
                          \<and> 0 < sellPrice item) items. quantity item)"
    unfolding same sum_list_if_filter by simp_all
  with first show ?thesis by auto
qed


lemma withAvailable_simps [simp]:
  "inv_type (withAvailable v) = inv_type v"
  "inv_species (withAvailable v) = inv_species v"
  "totalPurchased (withAvailable v) = totalPurchased v"
  "totalSold (withAvailable v) = totalSold v"
  "availableQuantity (withAvailable v) = totalPurchased v - totalSold v"
  by (simp_all add: withAvailable_def inventoryRow.defs inventoryEntry.defs)

text \<open>
  The report as a function of the records the filters select.
\<close>

lemma inventory_of_selection:
  "(\<forall>e\<in>set (getAvailableInventory s uid typeFilter speciesFilter).
       totalPurchased e =
         (\<Sum>item\<leftarrow>filter (\<lambda>item. (item_type item = inv_type e \<and> species item = inv_species e)
                         \<and> (0 < buyPrice item \<and> sellPrice item = 0))
                  (inventoryItems s uid typeFilter speciesFilter). quantity item)
     \<and> totalSold e =
         (\<Sum>item\<leftarrow>filter (\<lambda>item. (item_type item = inv_type e \<and> species item = inv_species e)
                         \<and> 0 < sellPrice item)
                  (inventoryItems s uid typeFilter speciesFilter). quantity item)
     \<and> availableQuantity e = totalPurchased e - totalSold e)
   \<and> distinct (map (\<lambda>e. (inv_type e, inv_species e))
        (getAvailableInventory s uid typeFilter speciesFilter))
   \<and> set (map (\<lambda>e. (inv_type e, inv_species e))
        (getAvailableInventory s uid typeFilter speciesFilter))
      = (\<lambda>item. (item_type item, species item)) ` set (inventoryItems s uid typeFilter speciesFilter)
   \<and> inventoryItems s uid None None = filter (\<lambda>item. userId item = uid) (stockItems s)"
proof -
  define items where "items = inventoryItems s uid typeFilter speciesFilter"
  define final where "final = foldl countItem [] items"
  have result: "getAvailableInventory s uid typeFilter speciesFilter
      = map (withAvailable \<circ> snd) final"
    by (simp add: getAvailableInventory_def final_def items_def)
  have rows: "\<exists>first\<in>set items. inventoryKey first = k
      \<and> inv_type v = item_type first \<and> inv_species v = species first
      \<and> totalPurchased v =
          (\<Sum>item\<leftarrow>filter (\<lambda>item. (item_type item = inv_type v \<and> species item = inv_species v)
                          \<and> (0 < buyPrice item \<and> sellPrice item = 0)) items. quantity item)
      \<and> totalSold v =
          (\<Sum>item\<leftarrow>filter (\<lambda>item. (item_type item = inv_type v \<and> species item = inv_species v)
                          \<and> 0 < sellPrice item) items. quantity item)"
    if "(k, v) \<in> set final" for k v
    using that unfolding final_def by (rule inventory_rows)
  have totals: "\<forall>e\<in>set (map (withAvailable \<circ> snd) final).
       totalPurchased e =
         (\<Sum>item\<leftarrow>filter (\<lambda>item. (item_type item = inv_type e \<and> species item = inv_species e)
                         \<and> (0 < buyPrice item \<and> sellPrice item = 0)) items. quantity item)
     \<and> totalSold e =
         (\<Sum>item\<leftarrow>filter (\<lambda>item. (item_type item = inv_type e \<and> species item = inv_species e)
                         \<and> 0 < sellPrice item) items. quantity item)
     \<and> availableQuantity e = totalPurchased e - totalSold e"
  proof
    fix e assume "e \<in> set (map (withAvailable \<circ> snd) final)"
    then obtain k v where kv: "(k, v) \<in> set final" and e: "e = withAvailable v"
      by auto
    from rows [OF kv] e show "totalPurchased e =
         (\<Sum>item\<leftarrow>filter (\<lambda>item. (item_type item = inv_type e \<and> species item = inv_species e)
                         \<and> (0 < buyPrice item \<and> sellPrice item = 0)) items. quantity item)
     \<and> totalSold e =
         (\<Sum>item\<leftarrow>filter (\<lambda>item. (item_type item = inv_type e \<and> species item = inv_species e)
                         \<and> 0 < sellPrice item) items. quantity item)
     \<and> availableQuantity e = totalPurchased e - totalSold e"
      by auto
  qed
  have key: "fst kv = categoryName (inv_type (snd kv)) @ '':'' @ inv_species (snd kv)"
    if "kv \<in> set final" for kv
  proof -
    from that have "(fst kv, snd kv) \<in> set final" by simp
    from rows [OF this] show ?thesis by (auto simp add: inventoryKey_def)
  qed
  have "distinct (map fst final)"
    unfolding final_def by (rule keys_foldl_countItem(2)) simp
  moreover have "map fst final =
      map (\<lambda>(t, sp). categoryName t @ '':'' @ sp)
        (map (\<lambda>e. (inv_type e, inv_species e)) (map (withAvailable \<circ> snd) final))"
    using key by (simp add: comp_def)
  ultimately have "distinct (map (\<lambda>(t, sp). categoryName t @ '':'' @ sp)
        (map (\<lambda>e. (inv_type e, inv_species e)) (map (withAvailable \<circ> snd) final)))"
    by (simp only:)
  then have dist: "distinct (map (\<lambda>e. (inv_type e, inv_species e))
      (map (withAvailable \<circ> snd) final))"
    by (rule distinct_map [THEN iffD1, THEN conjunct1])
  have groups: "set (map (\<lambda>e. (inv_type e, inv_species e)) (map (withAvailable \<circ> snd) final))
      = (\<lambda>item. (item_type item, species item)) ` set items"
  proof (intro set_eqI iffI)
    fix p assume "p \<in> set (map (\<lambda>e. (inv_type e, inv_species e))
      (map (withAvailable \<circ> snd) final))"
    then obtain k v where kv: "(k, v) \<in> set final" and p: "p = (inv_type v, inv_species v)"
      by auto
    from rows [OF kv] p show "p \<in> (\<lambda>item. (item_type item, species item)) ` set items"
      by auto
  next
    fix p assume "p \<in> (\<lambda>item. (item_type item, species item)) ` set items"
    then obtain item where item: "item \<in> set items" and p: "p = (item_type item, species item)"
      by auto
    have "set (map fst final) = inventoryKey ` set items"
      unfolding final_def using keys_foldl_countItem(1) [of "[]" items] by simp
    with item have "inventoryKey item \<in> set (map fst final)" by simp
    then obtain v where kv: "(inventoryKey item, v) \<in> set final" by auto
    from rows [OF kv] obtain first where "inventoryKey first = inventoryKey item"
      "inv_type v = item_type first" "inv_species v = species first"
      by blast
    then have "(inv_type v, inv_species v) = p"
      using p by (simp add: inventoryKey_eq)
    with kv show "p \<in> set (map (\<lambda>e. (inv_type e, inv_species e))
      (map (withAvailable \<circ> snd) final))"
      by force
  qed
  have nofilter: "inventoryItems s uid None None = filter (\<lambda>item. userId item = uid) (stockItems s)"
    by (simp add: inventoryItems_def)
  from totals dist groups nofilter show ?thesis
    unfolding result items_def [symmetric] by blast
qed

text \<open>
  The records the filters select: those of the user, of the category when one is given,
  and of the species when one is given and is not the empty string.
\<close>

lemma inventoryItems_filter:
  "inventoryItems s uid typeFilter speciesFilter =
     filter (\<lambda>item. userId item = uid
               \<and> (case typeFilter of None \<Rightarrow> True | Some t \<Rightarrow> item_type item = t)
               \<and> (case speciesFilter of None \<Rightarrow> True | Some sp \<Rightarrow> sp = [] \<or> species item = sp))
       (stockItems s)"
  by (cases typeFilter; cases speciesFilter)
    (auto simp add: inventoryItems_def Let_def intro: filter_cong)

text \<open>
  C4: for every value of the two filters, \<^verbatim>\<open>getAvailableInventory\<close> returns one
  entry for each (category, species) pair among the records of the ledger that belong to
  the user and pass the filters; without filters these are all records of the user.  The
  entry of a pair reports as total purchased the sum of the quantities of those records of
  the pair with buy price above zero and sell price zero, as total sold the sum of the
  quantities of those with sell price above zero, whatever their buy price, and as
  available quantity the difference of the two, which is not clamped.
\<close>

theorem available_inventory:
  "(\<forall>e\<in>set (getAvailableInventory s uid typeFilter speciesFilter).
       totalPurchased e =
         (\<Sum>item\<leftarrow>filter (\<lambda>item.
                    (userId item = uid
                      \<and> (case typeFilter of None \<Rightarrow> True | Some t \<Rightarrow> item_type item = t)
                      \<and> (case speciesFilter of
                            None \<Rightarrow> True | Some sp \<Rightarrow> sp = [] \<or> species item = sp))
                    \<and> (item_type item = inv_type e \<and> species item = inv_species e)
                    \<and> (0 < buyPrice item \<and> sellPrice item = 0))
                  (stockItems s). quantity item)
     \<and> totalSold e =
         (\<Sum>item\<leftarrow>filter (\<lambda>item.
                    (userId item = uid
                      \<and> (case typeFilter of None \<Rightarrow> True | Some t \<Rightarrow> item_type item = t)
                      \<and> (case speciesFilter of
                            None \<Rightarrow> True | Some sp \<Rightarrow> sp = [] \<or> species item = sp))
                    \<and> (item_type item = inv_type e \<and> species item = inv_species e)
                    \<and> 0 < sellPrice item)
                  (stockItems s). quantity item)
     \<and> availableQuantity e = totalPurchased e - totalSold e)
   \<and> distinct (map (\<lambda>e. (inv_type e, inv_species e))
        (getAvailableInventory s uid typeFilter speciesFilter))
   \<and> set (map (\<lambda>e. (inv_type e, inv_species e))
        (getAvailableInventory s uid typeFilter speciesFilter))
      = (\<lambda>item. (item_type item, species item)) `
          {item \<in> set (stockItems s).
             userId item = uid
             \<and> (case typeFilter of None \<Rightarrow> True | Some t \<Rightarrow> item_type item = t)
             \<and> (case speciesFilter of None \<Rightarrow> True | Some sp \<Rightarrow> sp = [] \<or> species item = sp)}"
proof -
  define sel :: "stockItem \<Rightarrow> bool" where "sel = (\<lambda>item. userId item = uid
      \<and> (case typeFilter of None \<Rightarrow> True | Some t \<Rightarrow> item_type item = t)
      \<and> (case speciesFilter of None \<Rightarrow> True | Some sp \<Rightarrow> sp = [] \<or> species item = sp))"
  have items: "inventoryItems s uid typeFilter speciesFilter = filter sel (stockItems s)"
    unfolding sel_def by (rule inventoryItems_filter)
  have ff: "filter P (filter sel xs) = filter (\<lambda>item. sel item \<and> P item) xs" for P xs
    by (simp add: conj_commute)
  have setsel: "set (filter sel (stockItems s)) = {item \<in> set (stockItems s). sel item}"
    by auto
  from inventory_of_selection [of s uid typeFilter speciesFilter]
  have "(\<forall>e\<in>set (getAvailableInventory s uid typeFilter speciesFilter).
       totalPurchased e =
         (\<Sum>item\<leftarrow>filter (\<lambda>item. sel item
                    \<and> (item_type item = inv_type e \<and> species item = inv_species e)
                    \<and> (0 < buyPrice item \<and> sellPrice item = 0))
                  (stockItems s). quantity item)
     \<and> totalSold e =
         (\<Sum>item\<leftarrow>filter (\<lambda>item. sel item
                    \<and> (item_type item = inv_type e \<and> species item = inv_species e)
                    \<and> 0 < sellPrice item)
                  (stockItems s). quantity item)
     \<and> availableQuantity e = totalPurchased e - totalSold e)
   \<and> distinct (map (\<lambda>e. (inv_type e, inv_species e))
        (getAvailableInventory s uid typeFilter speciesFilter))
   \<and> set (map (\<lambda>e. (inv_type e, inv_species e))
        (getAvailableInventory s uid typeFilter speciesFilter))
      = (\<lambda>item. (item_type item, species item)) ` {item \<in> set (stockItems s). sel item}"
    unfolding items ff setsel by blast
  then show ?thesis unfolding sel_def .
qed

theorem available_inventory_witness:
  "getAvailableInventory twoItemStore ''u1'' (Some berry) (Some ''blueberry'') =
     [\<lparr> inv_type = berry, inv_species = ''blueberry'', totalPurchased = 500, totalSold = 200,
        availableQuantity = 300 \<rparr>]
   \<and> (\<Sum>item\<leftarrow>filter (\<lambda>item.
              (userId item = ''u1'' \<and> item_type item = berry \<and> species item = ''blueberry'')
              \<and> (item_type item = berry \<and> species item = ''blueberry'')
              \<and> (0 < buyPrice item \<and> sellPrice item = 0))
            (stockItems twoItemStore). quantity item) = 500
   \<and> (\<Sum>item\<leftarrow>filter (\<lambda>item.
              (userId item = ''u1'' \<and> item_type item = berry \<and> species item = ''blueberry'')
              \<and> (item_type item = berry \<and> species item = ''blueberry'')
              \<and> 0 < sellPrice item)
            (stockItems twoItemStore). quantity item) = 200
   \<and> getAvailableInventory twoItemStore ''u1'' None None =
     [\<lparr> inv_type = berry, inv_species = ''blueberry'', totalPurchased = 500, totalSold = 200,
        availableQuantity = 300 \<rparr>]
   \<and> getAvailableInventory twoItemStore ''u1'' None (Some []) =
     [\<lparr> inv_type = berry, inv_species = ''blueberry'', totalPurchased = 500, totalSold = 200,
        availableQuantity = 300 \<rparr>]
   \<and> getAvailableInventory twoItemStore ''u1'' (Some mushroom) None = []
   \<and> getAvailableInventory twoItemStore ''u2'' None None = []
   \<and> getAvailableInventory soldStore ''u1'' None None =
     [\<lparr> inv_type = berry, inv_species = ''blueberry'', totalPurchased = 0, totalSold = 200,
        availableQuantity = - 200 \<rparr>]"
proof -
  have items: "stockItems twoItemStore =
     [fst (createStockItem emptyStore ''item-1'' date2024 purchaseData),
      fst (createStockItem emptyStore ''item-2'' date2024 saleData)]"
    "stockItems soldStore = [fst (createStockItem emptyStore ''item-1'' date2024 saleData)]"
    by (simp_all add: twoItemStore_def soldStore_def createStockItem_def Let_def emptyStore_def)
  have ev: "getAvailableInventory twoItemStore ''u1'' (Some berry) (Some ''blueberry'') =
     [\<lparr> inv_type = berry, inv_species = ''blueberry'', totalPurchased = 500, totalSold = 200,
        availableQuantity = 300 \<rparr>]"
    "getAvailableInventory twoItemStore ''u1'' None None =
     [\<lparr> inv_type = berry, inv_species = ''blueberry'', totalPurchased = 500, totalSold = 200,
        availableQuantity = 300 \<rparr>]"
    "getAvailableInventory twoItemStore ''u1'' None (Some []) =
     [\<lparr> inv_type = berry, inv_species = ''blueberry'', totalPurchased = 500, totalSold = 200,
        availableQuantity = 300 \<rparr>]"
    "getAvailableInventory twoItemStore ''u1'' (Some mushroom) None = []"
    "getAvailableInventory twoItemStore ''u2'' None None = []"
    "getAvailableInventory soldStore ''u1'' None None =
     [\<lparr> inv_type = berry, inv_species = ''blueberry'', totalPurchased = 0, totalSold = 200,
        availableQuantity = - 200 \<rparr>]"
    by (simp_all add: getAvailableInventory_def inventoryItems_def items createStockItem_def
        purchaseData_def saleData_def countItem_def inventoryKey_def withAvailable_def
        inventoryRow.defs inventoryEntry.defs Let_def)
  from available_inventory [of twoItemStore "''u1''" "Some berry" "Some ''blueberry''"] ev(1)
  have "(\<Sum>item\<leftarrow>filter (\<lambda>item.
              (userId item = ''u1'' \<and> item_type item = berry \<and> species item = ''blueberry'')
              \<and> (item_type item = berry \<and> species item = ''blueberry'')
              \<and> (0 < buyPrice item \<and> sellPrice item = 0))
            (stockItems twoItemStore). quantity item) = 500
   \<and> (\<Sum>item\<leftarrow>filter (\<lambda>item.
              (userId item = ''u1'' \<and> item_type item = berry \<and> species item = ''blueberry'')
              \<and> (item_type item = berry \<and> species item = ''blueberry'')
              \<and> 0 < sellPrice item)
            (stockItems twoItemStore). quantity item) = 200"
    by simp
  with ev show ?thesis by auto
qed

end
